theory Spec2Isabelle
  imports Complex_Main "HOL-Library.Multiset"
begin

section \<open>Data model\<close>

text \<open>
  A shallow embedding of the group controller (\<^verbatim>\<open>src/controllers/groupController.js\<close>)
  and the message controller (\<^verbatim>\<open>src/controllers/messageController.js\<close>) over an
  explicit database state. A Mongo ObjectId is taken by its canonical string
  (\<^verbatim>\<open>toString()\<close>), so the comparisons \<^verbatim>\<open>m.toString() === req.user.id\<close> of the
  source are equalities of strings. A collection is the list of its documents in insertion
  order. A controller takes the database and returns the database after the request and
  the response it sent. The values the runtime supplies are arguments: \<open>now\<close> is
  \<^verbatim>\<open>Date.now()\<close> in milliseconds, \<open>newId\<close> is the \<^verbatim>\<open>_id\<close> the driver gives a document
  it inserts, \<open>userId\<close> is \<^verbatim>\<open>req.user.id\<close>, the subject of the verified token.
\<close>

type_synonym oid = string

datatype gtype = Open | Private

datatype jstatus = Pending | Approved | Declined

datatype decision = Approve | Decline

text \<open>\<^verbatim>\<open>models/Group.js\<close>\<close>

record Group =
  g_id :: oid
  name :: string
  gtype :: gtype
  owner :: oid
  maxMembers :: nat
  members :: "oid list"
  bannedUsers :: "oid list"

text \<open>\<^verbatim>\<open>models/JoinRequest.js\<close>\<close>

record JoinRequest =
  jr_id :: oid
  jr_group :: oid
  jr_user :: oid
  status :: jstatus
  jr_createdAt :: int

text \<open>\<^verbatim>\<open>models/LeaveHistory.js\<close>\<close>

record LeaveHistory =
  lh_id :: oid
  lh_group :: oid
  lh_user :: oid
  leftAt :: int

text \<open>\<^verbatim>\<open>models/Invite.js\<close>\<close>

record Invite =
  inv_id :: oid
  inv_group :: oid
  inv_owner :: oid
  tokenHash :: string
  maxUses :: nat
  uses :: nat
  expiresAt :: int
  disabled :: bool

text \<open>\<^verbatim>\<open>models/Message.js\<close>\<close>

record Message =
  msg_id :: oid
  msg_group :: oid
  sender :: oid
  payload :: string
  createdAt :: int

text \<open>The user collection, as far as the controllers read it: the id and the email.\<close>

record User =
  u_id :: oid
  email :: string

record db =
  users :: "User list"
  groups :: "Group list"
  joinRequests :: "JoinRequest list"
  leaveHistories :: "LeaveHistory list"
  invites :: "Invite list"
  messages :: "Message list"

text \<open>
  What the controllers take from libraries: Mongoose's format check of an id, the hash of
  \<^verbatim>\<open>utils/token.js\<close>, and the AES-128-GCM primitive of Node under the configured key
  (\<^verbatim>\<open>createCipheriv\<close> with \<^verbatim>\<open>getAuthTag\<close>, and \<^verbatim>\<open>createDecipheriv\<close> whose
  \<^verbatim>\<open>final()\<close> throws on a wrong tag).
\<close>

record platform =
  isValidObjectId :: "string \<Rightarrow> bool"
  sha256 :: "string \<Rightarrow> string"
  gcmEncrypt :: "string \<Rightarrow> string \<Rightarrow> string \<times> string"
  gcmDecrypt :: "string \<Rightarrow> string \<Rightarrow> string \<Rightarrow> string option"

text \<open>
  The body of a response. A message built from a template keeps its parameter as a value:
  \<open>ErrorCooldown n\<close> is \<^verbatim>\<open>Cooldown active. Try after n hours\<close> and
  \<open>ErrorInvalidUserId i\<close> is \<^verbatim>\<open>Invalid userId in initialMemberIds: i\<close>.
  \<open>ErrorCast v\<close> and \<open>ErrorDecrypt\<close> stand for the messages of the errors
  that Mongoose throws on an id it cannot cast and that the decipher throws on a payload
  it cannot authenticate; \<^verbatim>\<open>errorHandler\<close> sends both with status 500.
\<close>

record MessageOut =
  out_id :: oid
  out_sender_id :: "oid option"
  out_sender_email :: "string option"
  out_createdAt :: int
  out_text :: string

datatype body =
  Error string
  | ErrorStatus string jstatus
  | ErrorCooldown int
  | ErrorInvalidUserId string
  | Msg string
  | MsgRequest string oid
  | MsgStatus string jstatus
  | MsgGroup string oid
  | GroupDoc Group
  | Created oid int
  | MessageList "MessageOut list"
  | ErrorCast string
  | ErrorDecrypt

datatype response = Response nat body

fun statusCode :: "response \<Rightarrow> nat" where
  "statusCode (Response n b) = n"

section \<open>Collection primitives\<close>

text \<open>\<^verbatim>\<open>updateOne\<close>: the first document that matches is updated, the others stay.\<close>

fun updateOne :: "('a \<Rightarrow> bool) \<Rightarrow> ('a \<Rightarrow> 'a) \<Rightarrow> 'a list \<Rightarrow> 'a list" where
  "updateOne P f [] = []"
| "updateOne P f (x # xs) = (if P x then f x # xs else x # updateOne P f xs)"

definition findGroupById :: "oid \<Rightarrow> db \<Rightarrow> Group option" where
  "findGroupById i d = find (\<lambda>g. g_id g = i) (groups d)"

text \<open>\<^verbatim>\<open>group.save()\<close> writes the loaded document back under its \<^verbatim>\<open>_id\<close>.\<close>

definition saveGroup :: "Group \<Rightarrow> db \<Rightarrow> db" where
  "saveGroup g d = d\<lparr>groups := updateOne (\<lambda>x. g_id x = g_id g) (\<lambda>x. g) (groups d)\<rparr>"

definition saveJoinRequest :: "JoinRequest \<Rightarrow> db \<Rightarrow> db" where
  "saveJoinRequest r d =
     d\<lparr>joinRequests := updateOne (\<lambda>x. jr_id x = jr_id r) (\<lambda>x. r) (joinRequests d)\<rparr>"

definition saveInvite :: "Invite \<Rightarrow> db \<Rightarrow> db" where
  "saveInvite i d = d\<lparr>invites := updateOne (\<lambda>x. inv_id x = inv_id i) (\<lambda>x. i) (invites d)\<rparr>"

text \<open>
  \<^verbatim>\<open>JoinRequest.findOneAndUpdate({group, user}, {$set: {status: 'pending'}},
  {upsert: true, new: true, setDefaultsOnInsert: true})\<close>: the document of the pair is set
  to pending, or inserted as pending when there is none; the document after the update is
  returned.
\<close>

definition upsertPending :: "oid \<Rightarrow> int \<Rightarrow> oid \<Rightarrow> oid \<Rightarrow> db \<Rightarrow> db \<times> JoinRequest" where
  "upsertPending newId now gid uid d =
     (case find (\<lambda>r. jr_group r = gid \<and> jr_user r = uid) (joinRequests d) of
        Some r \<Rightarrow>
          (d\<lparr>joinRequests := updateOne (\<lambda>r. jr_group r = gid \<and> jr_user r = uid)
                 (\<lambda>r. r\<lparr>status := Pending\<rparr>) (joinRequests d)\<rparr>,
           r\<lparr>status := Pending\<rparr>)
      | None \<Rightarrow>
          (let r = \<lparr>jr_id = newId, jr_group = gid, jr_user = uid, status = Pending,
                    jr_createdAt = now\<rparr>
           in (d\<lparr>joinRequests := joinRequests d @ [r]\<rparr>, r)))"

text \<open>\<^verbatim>\<open>[...new Set(xs)]\<close>: the first occurrence of each element, in order.\<close>

definition newSet :: "'a list \<Rightarrow> 'a list" where
  "newSet xs = rev (remdups (rev xs))"

section \<open>The group controller\<close>

definition COOLDOWN_HOURS :: rat where
  "COOLDOWN_HOURS = 48"

definition capacityOk :: "Group \<Rightarrow> bool" where
  "capacityOk g = (maxMembers g = 0 \<or> length (members g) < maxMembers g)"

text \<open>
  \<^verbatim>\<open>ensureNotBanned\<close> returns the database and the error it throws, if any, as the
  status and message that \<^verbatim>\<open>errorHandler\<close> sends.
\<close>

definition ensureNotBanned :: "oid \<Rightarrow> int \<Rightarrow> Group \<Rightarrow> oid \<Rightarrow> db \<Rightarrow> db \<times> (nat \<times> string) option" where
  "ensureNotBanned newId now g uid d =
     (if uid \<in> set (bannedUsers g)
      then (fst (upsertPending newId now (g_id g) uid d),
            Some (403, ''You are banned. A join request is now pending for owner approval.''))
      else (d, None))"

text \<open>
  The body of \<^verbatim>\<open>POST /groups\<close> as \<^verbatim>\<open>groupCreateSchema\<close> types it; the schema's
  remaining checks are \<open>groupCreateSchema\<close>.
\<close>

record createBody =
  b_name :: string
  b_type :: gtype
  b_maxMembers :: nat
  b_initialMemberIds :: "string list"

definition groupCreateSchema :: "createBody \<Rightarrow> bool" where
  "groupCreateSchema b = (length (b_name b) \<ge> 1 \<and> (b_maxMembers b = 0 \<or> b_maxMembers b \<ge> 2))"

definition createGroup :: "platform \<Rightarrow> oid \<Rightarrow> oid \<Rightarrow> createBody \<Rightarrow> db \<Rightarrow> db \<times> response" where
  "createGroup L newId userId b d =
     (if \<not> groupCreateSchema b then (d, Response 400 (Error ''Validation failed''))
      else
        let ownerId = userId;
            uniqueIds = newSet (filter (\<lambda>i. i \<noteq> [] \<and> i \<noteq> ownerId) (b_initialMemberIds b))
        in case find (\<lambda>i. \<not> isValidObjectId L i) uniqueIds of
             Some i \<Rightarrow> (d, Response 400 (ErrorInvalidUserId i))
           | None \<Rightarrow>
               let total = 1 + length uniqueIds in
               if b_maxMembers b \<noteq> 0 \<and> total > b_maxMembers b
               then (d, Response 400 (Error ''Too many initial members for this group capacity''))
               else
                 let g = \<lparr>g_id = newId, name = b_name b, gtype = b_type b, owner = ownerId,
                          maxMembers = b_maxMembers b, members = ownerId # uniqueIds,
                          bannedUsers = []\<rparr>
                 in (d\<lparr>groups := groups d @ [g]\<rparr>, Response 201 (GroupDoc g)))"

text \<open>The local constant \<^verbatim>\<open>uniqueIds\<close> of \<^verbatim>\<open>createGroup\<close>.\<close>

definition uniqueIds :: "oid \<Rightarrow> string list \<Rightarrow> string list" where
  "uniqueIds ownerId ids = newSet (filter (\<lambda>i. i \<noteq> [] \<and> i \<noteq> ownerId) ids)"

definition joinOpenGroup :: "platform \<Rightarrow> oid \<Rightarrow> int \<Rightarrow> oid \<Rightarrow> string \<Rightarrow> db \<Rightarrow> db \<times> response" where
  "joinOpenGroup L newId now userId groupId d =
     (if \<not> isValidObjectId L groupId then (d, Response 400 (Error ''Invalid groupId''))
      else case findGroupById groupId d of
        None \<Rightarrow> (d, Response 404 (Error ''Group not found or not open''))
      | Some g \<Rightarrow>
          if gtype g \<noteq> Open then (d, Response 404 (Error ''Group not found or not open''))
          else (case ensureNotBanned newId now g userId d of
            (d1, Some (st, m)) \<Rightarrow> (d1, Response st (Error m))
          | (d1, None) \<Rightarrow>
              if userId \<in> set (members g) then (d1, Response 200 (Msg ''Already a member''))
              else if \<not> capacityOk g then (d1, Response 400 (Error ''Group is full''))
              else (saveGroup (g\<lparr>members := members g @ [userId]\<rparr>) d1,
                    Response 200 (Msg ''Joined''))))"

text \<open>
  \<^verbatim>\<open>LeaveHistory.findOne({group, user}).sort({leftAt: -1})\<close>: of the records of the
  pair, one with the greatest \<^verbatim>\<open>leftAt\<close>; the controller reads only that field.
\<close>

definition lastLeave :: "oid \<Rightarrow> oid \<Rightarrow> db \<Rightarrow> int option" where
  "lastLeave gid uid d =
     (case map leftAt (filter (\<lambda>h. lh_group h = gid \<and> lh_user h = uid) (leaveHistories d)) of
        [] \<Rightarrow> None
      | t # ts \<Rightarrow> Some (fold max ts t))"

text \<open>
  The elapsed hours are \<^verbatim>\<open>(Date.now() - leftAt.getTime()) / 36e5\<close>. The source computes
  them in double precision; the model computes them exactly. The two agree on the
  comparison with 48 and on the ceiling: the difference of two timestamps is an integer
  below \<open>2 ^ 53\<close>, its quotient by 3600000 is either an integer or at least
  \<open>1 / 3600000\<close> away from one, and the rounding error of the two operations is far below
  that.
\<close>

definition requestJoinPrivate :: "platform \<Rightarrow> oid \<Rightarrow> int \<Rightarrow> oid \<Rightarrow> string \<Rightarrow> db \<Rightarrow> db \<times> response" where
  "requestJoinPrivate L newId now userId groupId d =
     (if \<not> isValidObjectId L groupId then (d, Response 400 (Error ''Invalid groupId''))
      else case findGroupById groupId d of
        None \<Rightarrow> (d, Response 404 (Error ''Group not found or not private''))
      | Some g \<Rightarrow>
          if gtype g \<noteq> Private then (d, Response 404 (Error ''Group not found or not private''))
          else if userId \<in> set (members g) then (d, Response 200 (Msg ''Already a member''))
          else (case ensureNotBanned newId now g userId d of
            (d1, Some (st, m)) \<Rightarrow> (d1, Response st (Error m))
          | (d1, None) \<Rightarrow>
              let cooldown =
                    (case lastLeave (g_id g) userId d1 of
                       None \<Rightarrow> None
                     | Some t \<Rightarrow>
                         let hours = (of_int (now - t) :: rat) / 3600000 in
                         if hours < COOLDOWN_HOURS then Some \<lceil>COOLDOWN_HOURS - hours\<rceil> else None)
              in (case cooldown of
                Some n \<Rightarrow> (d1, Response 400 (ErrorCooldown n))
              | None \<Rightarrow>
                  (case find (\<lambda>r. jr_group r = g_id g \<and> jr_user r = userId) (joinRequests d1) of
                     Some existing \<Rightarrow>
                       if status existing = Pending
                       then (d1, Response 200
                               (MsgRequest ''Join request already submitted'' (jr_id existing)))
                       else (case upsertPending newId now (g_id g) userId d1 of
                               (d2, jr) \<Rightarrow>
                                 (d2, Response 200 (MsgRequest ''Join request submitted'' (jr_id jr))))
                   | None \<Rightarrow>
                       (case upsertPending newId now (g_id g) userId d1 of
                          (d2, jr) \<Rightarrow>
                            (d2, Response 200 (MsgRequest ''Join request submitted'' (jr_id jr))))))))"

text \<open>
  \<^verbatim>\<open>Group.updateOne({_id}, {$pull: {bannedUsers: u}, $addToSet: {members: u}})\<close>:
  every occurrence of \<open>u\<close> leaves the banned list, and \<open>u\<close> is appended to the members
  unless it is there.
\<close>

definition pullAddToSet :: "oid \<Rightarrow> Group \<Rightarrow> Group" where
  "pullAddToSet u g =
     g\<lparr>bannedUsers := removeAll u (bannedUsers g),
       members := (if u \<in> set (members g) then members g else members g @ [u])\<rparr>"

text \<open>The decision is \<open>None\<close> when the body fails \<^verbatim>\<open>z.enum(['approve', 'decline'])\<close>.\<close>

definition decideJoinRequest :: "platform \<Rightarrow> oid \<Rightarrow> string \<Rightarrow> decision option \<Rightarrow> db \<Rightarrow> db \<times> response" where
  "decideJoinRequest L userId requestId dec d =
     (if \<not> isValidObjectId L requestId then (d, Response 400 (Error ''Invalid requestId''))
      else case dec of
        None \<Rightarrow> (d, Response 400 (Error ''Invalid decision''))
      | Some decision \<Rightarrow>
          (case find (\<lambda>r. jr_id r = requestId) (joinRequests d) of
             None \<Rightarrow> (d, Response 404 (Error ''Request not found''))
           | Some jr \<Rightarrow>
               (case findGroupById (jr_group jr) d of
                  None \<Rightarrow> (d, Response 404 (Error ''Group not found''))
                | Some g \<Rightarrow>
                    if owner g \<noteq> userId then (d, Response 403 (Error ''Only owner''))
                    else if status jr \<noteq> Pending
                    then (d, Response 409 (ErrorStatus ''Request already resolved'' (status jr)))
                    else if decision = Approve then
                      (if \<not> capacityOk g then (d, Response 400 (Error ''Group is full''))
                       else
                         let d1 = d\<lparr>groups := updateOne (\<lambda>x. g_id x = g_id g)
                                             (pullAddToSet (jr_user jr)) (groups d)\<rparr>
                         in (saveJoinRequest (jr\<lparr>status := Approved\<rparr>) d1,
                             Response 200 (MsgStatus ''Decision recorded'' Approved)))
                    else (saveJoinRequest (jr\<lparr>status := Declined\<rparr>) d,
                          Response 200 (MsgStatus ''Decision recorded'' Declined)))))"

text \<open>
  \<^verbatim>\<open>findIndex\<close> and \<^verbatim>\<open>splice(idx, 1)\<close> remove the first occurrence of the caller:
  \<open>remove1\<close>.
\<close>

definition leaveGroup :: "platform \<Rightarrow> oid \<Rightarrow> int \<Rightarrow> oid \<Rightarrow> string \<Rightarrow> db \<Rightarrow> db \<times> response" where
  "leaveGroup L newId now userId groupId d =
     (if \<not> isValidObjectId L groupId then (d, Response 400 (Error ''Invalid groupId''))
      else case findGroupById groupId d of
        None \<Rightarrow> (d, Response 404 (Error ''Group not found''))
      | Some g \<Rightarrow>
          if userId \<notin> set (members g) then (d, Response 400 (Error ''Not a member''))
          else if owner g = userId
          then (d, Response 400 (Error ''Owner must transfer ownership before leaving''))
          else
            let d1 = saveGroup (g\<lparr>members := remove1 userId (members g)\<rparr>) d;
                d2 = (if gtype g = Private
                      then d1\<lparr>leaveHistories := leaveHistories d1 @
                              [\<lparr>lh_id = newId, lh_group = g_id g, lh_user = userId, leftAt = now\<rparr>]\<rparr>
                      else d1)
            in (d2, Response 200 (Msg ''Left group'')))"

definition banishMember :: "platform \<Rightarrow> oid \<Rightarrow> string \<Rightarrow> string \<Rightarrow> db \<Rightarrow> db \<times> response" where
  "banishMember L reqUserId groupId userId d =
     (if \<not> isValidObjectId L groupId then (d, Response 400 (Error ''Invalid groupId''))
      else if \<not> isValidObjectId L userId then (d, Response 400 (Error ''Invalid userId''))
      else case findGroupById groupId d of
        None \<Rightarrow> (d, Response 404 (Error ''Group not found''))
      | Some g \<Rightarrow>
          if owner g \<noteq> reqUserId then (d, Response 403 (Error ''Only owner''))
          else if userId = reqUserId then (d, Response 400 (Error ''Owner cannot banish self''))
          else
            let isMember = userId \<in> set (members g);
                isBanned = userId \<in> set (bannedUsers g)
            in if isBanned then (d, Response 200 (Msg ''User is already banned''))
               else if \<not> isMember \<and> \<not> isBanned
               then (d, Response 400 (Error ''User is not a current member''))
               else
                 let g1 = (if isMember
                           then g\<lparr>members := filter (\<lambda>m. m \<noteq> userId) (members g)\<rparr> else g);
                     g2 = g1\<lparr>bannedUsers := bannedUsers g1 @ [userId]\<rparr>
                 in (saveGroup g2 d, Response 200 (Msg ''User banished'')))"

definition transferOwnership :: "platform \<Rightarrow> oid \<Rightarrow> string \<Rightarrow> string \<Rightarrow> db \<Rightarrow> db \<times> response" where
  "transferOwnership L userId groupId newOwnerId d =
     (if \<not> isValidObjectId L groupId then (d, Response 400 (Error ''Invalid groupId''))
      else case findGroupById groupId d of
        None \<Rightarrow> (d, Response 404 (Error ''Group not found''))
      | Some g \<Rightarrow>
          if owner g \<noteq> userId then (d, Response 403 (Error ''Only owner''))
          else if \<not> isValidObjectId L newOwnerId
          then (d, Response 400 (Error ''Invalid newOwnerId''))
          else if newOwnerId \<notin> set (members g)
          then (d, Response 400 (Error ''New owner must be a member''))
          else (saveGroup (g\<lparr>owner := newOwnerId\<rparr>) d,
                Response 200 (Msg ''Ownership transferred'')))"

text \<open>
  \<^verbatim>\<open>joinWithInvite\<close>. The group is saved only when the caller was pushed; the invite is
  consumed in both cases.
\<close>

definition joinWithInvite :: "platform \<Rightarrow> int \<Rightarrow> oid \<Rightarrow> string \<Rightarrow> db \<Rightarrow> db \<times> response" where
  "joinWithInvite L now userId token d =
     (if length token < 1 then (d, Response 400 (Error ''Missing token''))
      else case find (\<lambda>i. tokenHash i = sha256 L token) (invites d) of
        None \<Rightarrow> (d, Response 400 (Error ''Invalid invite''))
      | Some invite \<Rightarrow>
          if disabled invite then (d, Response 400 (Error ''Invalid invite''))
          else if expiresAt invite \<le> now then (d, Response 400 (Error ''Invite expired''))
          else if uses invite \<ge> maxUses invite then (d, Response 400 (Error ''Invite exhausted''))
          else (case findGroupById (inv_group invite) d of
            None \<Rightarrow> (d, Response 404 (Error ''Group not found''))
          | Some g \<Rightarrow>
              if userId \<in> set (bannedUsers g)
              then (d, Response 403
                      (Error ''You are banned. Send a join request to the owner to rejoin.''))
              else if \<not> capacityOk g then (d, Response 400 (Error ''Group is full''))
              else
                let d1 = (if userId \<notin> set (members g)
                          then saveGroup (g\<lparr>members := members g @ [userId]\<rparr>) d else d);
                    i1 = invite\<lparr>uses := uses invite + 1\<rparr>;
                    i2 = (if uses i1 \<ge> maxUses i1 then i1\<lparr>disabled := True\<rparr> else i1)
                in (saveInvite i2 d1, Response 200 (MsgGroup ''Joined via invite'' (g_id g)))))"

text \<open>
  \<^verbatim>\<open>routes/groups.js\<close>: the requests of the membership operations, each routed to
  its controller.
\<close>

datatype request =
  PostGroups createBody
  | PostJoinOpen string
  | PostRequestJoin string
  | PostDecision string "decision option"
  | PostLeave string
  | PostBanish string string
  | PostTransfer string string
  | PostJoinWithInvite string

fun groupsRouter :: "platform \<Rightarrow> oid \<Rightarrow> int \<Rightarrow> oid \<Rightarrow> request \<Rightarrow> db \<Rightarrow> db \<times> response" where
  "groupsRouter L newId now userId (PostGroups b) d = createGroup L newId userId b d"
| "groupsRouter L newId now userId (PostJoinOpen groupId) d =
     joinOpenGroup L newId now userId groupId d"
| "groupsRouter L newId now userId (PostRequestJoin groupId) d =
     requestJoinPrivate L newId now userId groupId d"
| "groupsRouter L newId now userId (PostDecision requestId dec) d =
     decideJoinRequest L userId requestId dec d"
| "groupsRouter L newId now userId (PostLeave groupId) d =
     leaveGroup L newId now userId groupId d"
| "groupsRouter L newId now userId (PostBanish groupId target) d =
     banishMember L userId groupId target d"
| "groupsRouter L newId now userId (PostTransfer groupId newOwnerId) d =
     transferOwnership L userId groupId newOwnerId d"
| "groupsRouter L newId now userId (PostJoinWithInvite token) d =
     joinWithInvite L now userId token d"

section \<open>The message codec and the message controller\<close>







section \<open>The invariants of a group\<close>

definition disjointInv :: "Group \<Rightarrow> bool" where
  "disjointInv g = (set (members g) \<inter> set (bannedUsers g) = {})"

definition capacityInv :: "Group \<Rightarrow> bool" where
  "capacityInv g = (maxMembers g = 0 \<or> length (members g) \<le> maxMembers g)"

text \<open>
  What one request can do to one stored group: the changes the controllers write, each
  under the checks the controller made before writing.
\<close>

inductive gtrans :: "Group \<Rightarrow> Group \<Rightarrow> bool" where
  stay: "gtrans g g"
| push: "u \<notin> set (bannedUsers g) \<Longrightarrow> u \<notin> set (members g) \<Longrightarrow> capacityOk g \<Longrightarrow>
         gtrans g (g\<lparr>members := members g @ [u]\<rparr>)"
| approve: "capacityOk g \<Longrightarrow> gtrans g (pullAddToSet u g)"
| splice: "gtrans g (g\<lparr>members := remove1 u (members g)\<rparr>)"
| banish: "u \<in> set (members g) \<Longrightarrow>
           gtrans g (g\<lparr>members := filter (\<lambda>m. m \<noteq> u) (members g),
                       bannedUsers := bannedUsers g @ [u]\<rparr>)"
| transfer: "gtrans g (g\<lparr>owner := u\<rparr>)"

section \<open>Example data\<close>

text \<open>
  A platform and a database to evaluate the controllers on. The theorems below hold for
  every platform; this one accepts the 24 lower-case hexadecimal digits of an ObjectId.
\<close>

definition alice :: oid where "alice = ''aaaaaaaaaaaaaaaaaaaaaaaa''"
definition bob :: oid where "bob = ''bbbbbbbbbbbbbbbbbbbbbbbb''"
definition carol :: oid where "carol = ''cccccccccccccccccccccccc''"
definition grp :: oid where "grp = ''111111111111111111111111''"
definition nid :: oid where "nid = ''999999999999999999999999''"

definition demoPlatform :: platform where
  "demoPlatform =
     \<lparr>isValidObjectId = (\<lambda>s. length s = 24 \<and> list_all (\<lambda>c. c \<in> set ''0123456789abcdef'') s),
      sha256 = (\<lambda>s. ''sha256:'' @ s),
      gcmEncrypt = (\<lambda>iv t. (rev t, ''0123456789abcdef'')),
      gcmDecrypt = (\<lambda>iv tag c. if tag = ''0123456789abcdef'' then Some (rev c) else None)\<rparr>"

definition demoGroup :: Group where
  "demoGroup = \<lparr>g_id = grp, name = ''team'', gtype = Private, owner = alice,
                 maxMembers = 2, members = [alice, bob], bannedUsers = []\<rparr>"

definition demoDb :: db where
  "demoDb = \<lparr>users = [\<lparr>u_id = alice, email = ''alice@example.com''\<rparr>,
                       \<lparr>u_id = bob, email = ''bob@example.com''\<rparr>],
             groups = [demoGroup], joinRequests = [], leaveHistories = [],
             invites = [], messages = []\<rparr>"

definition pendingCarol :: JoinRequest where
  "pendingCarol = \<lparr>jr_id = nid, jr_group = grp, jr_user = carol, status = Pending, jr_createdAt = 5\<rparr>"

definition bannedDb :: db where
  "bannedDb = demoDb\<lparr>groups := [demoGroup\<lparr>members := [alice], bannedUsers := [bob]\<rparr>],
                     joinRequests := [\<lparr>jr_id = nid, jr_group = grp, jr_user = bob, status = Declined,
                                       jr_createdAt = 5\<rparr>]\<rparr>"

definition approveDb :: db where
  "approveDb = demoDb\<lparr>groups := [demoGroup\<lparr>members := [alice], bannedUsers := [carol]\<rparr>],
                      joinRequests := [pendingCarol]\<rparr>"



definition tok :: string where "tok = ''s3cr3t''"

definition inv1 :: oid where "inv1 = ''222222222222222222222222''"

definition demoInvite :: Invite where
  "demoInvite = \<lparr>inv_id = inv1, inv_group = grp, inv_owner = alice, tokenHash = ''sha256:s3cr3t'',
                  maxUses = 1, uses = 0, expiresAt = 100, disabled = False\<rparr>"

definition inviteDb :: db where
  "inviteDb = demoDb\<lparr>groups := [demoGroup\<lparr>members := [alice], maxMembers := 0\<rparr>],
                     invites := [demoInvite]\<rparr>"

definition leftDb :: db where
  "leftDb = demoDb\<lparr>groups := [demoGroup\<lparr>members := [alice]\<rparr>],
                   leaveHistories := [\<lparr>lh_id = nid, lh_group = grp, lh_user = bob, leftAt = 1000\<rparr>]\<rparr>"

definition bannedInviteDb :: db where
  "bannedInviteDb = inviteDb\<lparr>groups := [demoGroup\<lparr>members := [alice], bannedUsers := [bob]\<rparr>]\<rparr>"






section \<open>Stored groups under a request\<close>

lemmas demo_defs = alice_def bob_def carol_def grp_def nid_def demoPlatform_def demoGroup_def demoDb_def

lemma length_updateOne [simp]: "length (updateOne P f xs) = length xs"
  by (induction xs) auto

lemma nth_updateOne_find:
  "find P xs = Some x \<Longrightarrow> i < length xs \<Longrightarrow>
   updateOne P f xs ! i = xs ! i \<or> (xs ! i = x \<and> updateOne P f xs ! i = f x)"
proof (induction xs arbitrary: i)
  case Nil
  then show ?case by simp
next
  case (Cons a xs)
  then show ?case by (cases i) (auto split: if_splits)
qed

lemma nth_updateOne:
  "i < length xs \<Longrightarrow> updateOne P f xs ! i = xs ! i \<or> updateOne P f xs ! i = f (xs ! i)"
proof (induction xs arbitrary: i)
  case Nil
  then show ?case by simp
next
  case (Cons a xs)
  then show ?case by (cases i) (auto split: if_splits)
qed

lemma find_SomeD: "find P xs = Some x \<Longrightarrow> P x"
  by (induction xs) (auto split: if_splits)

lemma findGroupById_id: "findGroupById gid d = Some g \<Longrightarrow> g_id g = gid"
  unfolding findGroupById_def by (drule find_SomeD) simp

lemma gtrans_saveGroup:
  assumes "findGroupById gid d = Some g" and "g_id g' = g_id g" and "gtrans g g'"
    and "i < length (groups d)"
  shows "gtrans (groups d ! i) (groups (saveGroup g' d) ! i)"
proof -
  have "g_id g' = gid" using assms(1,2) findGroupById_id by simp
  then have S: "groups (saveGroup g' d) = updateOne (\<lambda>x. g_id x = gid) (\<lambda>x. g') (groups d)"
    by (simp add: saveGroup_def)
  have F: "find (\<lambda>x. g_id x = gid) (groups d) = Some g"
    using assms(1) by (simp add: findGroupById_def)
  from nth_updateOne_find[OF F assms(4), of "\<lambda>x. g'"] assms(3)
  show ?thesis unfolding S by (auto intro: gtrans.stay)
qed

lemma length_saveGroup [simp]: "length (groups (saveGroup g d)) = length (groups d)"
  by (simp add: saveGroup_def)

lemma groups_saveJoinRequest [simp]: "groups (saveJoinRequest r d) = groups d"
  by (simp add: saveJoinRequest_def)

lemma groups_saveInvite [simp]: "groups (saveInvite r d) = groups d"
  by (simp add: saveInvite_def)

lemma groups_upsertPending [simp]: "groups (fst (upsertPending n t gid u d)) = groups d"
  by (simp add: upsertPending_def Let_def split: option.splits)

lemma ensureNotBanned_groups: "ensureNotBanned n t g u d = (d1, e) \<Longrightarrow> groups d1 = groups d"
  by (auto simp: ensureNotBanned_def split: if_splits)

lemma ensureNotBanned_None:
  "ensureNotBanned n t g u d = (d1, None) \<Longrightarrow> d1 = d \<and> u \<notin> set (bannedUsers g)"
  by (auto simp: ensureNotBanned_def split: if_splits)

lemma joinOpen_gtrans:
  shows "length (groups (fst (joinOpenGroup L newId now userId groupId d))) = length (groups d)"
    and "i < length (groups d) \<Longrightarrow>
         gtrans (groups d ! i) (groups (fst (joinOpenGroup L newId now userId groupId d)) ! i)"
  by (auto simp: joinOpenGroup_def split: if_splits option.splits prod.splits
      dest: ensureNotBanned_groups ensureNotBanned_None
      intro!: gtrans.stay gtrans_saveGroup gtrans.push)

lemma requestJoin_groups [simp]:
  "groups (fst (requestJoinPrivate L newId now userId groupId d)) = groups d"
proof -
  have U: "\<And>g d1. groups (fst (case upsertPending newId now (g_id g) userId d1 of
             (d2, jr) \<Rightarrow> (d2, Response 200 (MsgRequest ''Join request submitted'' (jr_id jr)))))
           = groups d1"
    by (simp add: upsertPending_def Let_def split: option.splits)
  show ?thesis
    by (auto simp: requestJoinPrivate_def Let_def U simp del: split_paired_All
        split: if_splits option.splits prod.splits
        dest: ensureNotBanned_groups ensureNotBanned_None)
qed

lemma gtrans_updateOne_pull:
  assumes "findGroupById gid d = Some g" "capacityOk g" "i < length (groups d)"
  shows "gtrans (groups d ! i) (updateOne (\<lambda>x. g_id x = g_id g) (pullAddToSet u) (groups d) ! i)"
proof -
  have G: "g_id g = gid" using assms(1) by (rule findGroupById_id)
  have F: "find (\<lambda>x. g_id x = gid) (groups d) = Some g"
    using assms(1) by (simp add: findGroupById_def)
  from nth_updateOne_find[OF F assms(3), of "pullAddToSet u"] assms(2)
  show ?thesis unfolding G by (auto intro: gtrans.stay gtrans.approve)
qed

lemma decide_gtrans:
  shows "length (groups (fst (decideJoinRequest L userId requestId dec d))) = length (groups d)"
    and "i < length (groups d) \<Longrightarrow>
         gtrans (groups d ! i) (groups (fst (decideJoinRequest L userId requestId dec d)) ! i)"
  by (auto simp: decideJoinRequest_def Let_def split: if_splits option.splits
      intro!: gtrans.stay gtrans_updateOne_pull)

lemma leave_gtrans:
  shows "length (groups (fst (leaveGroup L newId now userId groupId d))) = length (groups d)"
    and "i < length (groups d) \<Longrightarrow>
         gtrans (groups d ! i) (groups (fst (leaveGroup L newId now userId groupId d)) ! i)"
  by (auto simp: leaveGroup_def Let_def split: if_splits option.splits
      intro!: gtrans.stay gtrans_saveGroup gtrans.splice)

lemma banish_gtrans:
  shows "length (groups (fst (banishMember L userId groupId target d))) = length (groups d)"
    and "i < length (groups d) \<Longrightarrow>
         gtrans (groups d ! i) (groups (fst (banishMember L userId groupId target d)) ! i)"
  by (auto simp: banishMember_def Let_def split: if_splits option.splits
      intro!: gtrans.stay gtrans_saveGroup gtrans.banish)

lemma transfer_gtrans:
  shows "length (groups (fst (transferOwnership L userId groupId newOwnerId d))) = length (groups d)"
    and "i < length (groups d) \<Longrightarrow>
         gtrans (groups d ! i) (groups (fst (transferOwnership L userId groupId newOwnerId d)) ! i)"
  by (auto simp: transferOwnership_def Let_def split: if_splits option.splits
      intro!: gtrans.stay gtrans_saveGroup gtrans.transfer)

lemma invite_gtrans:
  shows "length (groups (fst (joinWithInvite L now userId token d))) = length (groups d)"
    and "i < length (groups d) \<Longrightarrow>
         gtrans (groups d ! i) (groups (fst (joinWithInvite L now userId token d)) ! i)"
  by (auto simp: joinWithInvite_def Let_def split: if_splits option.splits
      intro!: gtrans.stay gtrans_saveGroup gtrans.push)

lemma set_newSet [simp]: "set (newSet xs) = set xs"
  by (simp add: newSet_def)

lemma distinct_newSet [simp]: "distinct (newSet xs)"
  by (simp add: newSet_def)

lemma createGroup_groups:
  "groups (fst (createGroup L newId userId b d)) = groups d \<or>
   (\<exists>g. groups (fst (createGroup L newId userId b d)) = groups d @ [g] \<and>
        bannedUsers g = [] \<and> capacityInv g)"
  by (auto simp: createGroup_def Let_def capacityInv_def split: option.splits)

lemma gtrans_id: "gtrans g g' \<Longrightarrow> g_id g' = g_id g"
  by (induction rule: gtrans.induct) (auto simp: pullAddToSet_def)

lemma gtrans_disjoint: "gtrans g g' \<Longrightarrow> disjointInv g \<Longrightarrow> disjointInv g'"
  by (induction rule: gtrans.induct)
     (auto simp: disjointInv_def pullAddToSet_def dest!: set_remove1_subset[THEN subsetD])

lemma gtrans_capacity: "gtrans g g' \<Longrightarrow> capacityInv g \<Longrightarrow> capacityInv g'"
  by (induction rule: gtrans.induct)
     (auto simp: capacityInv_def capacityOk_def pullAddToSet_def length_remove1
           intro: le_trans[OF length_filter_le])

lemma gtrans_grows:
  "gtrans g g' \<Longrightarrow> length (members g) < length (members g') \<Longrightarrow>
     capacityOk g \<and> length (members g') = Suc (length (members g))"
  by (induction rule: gtrans.induct)
     (auto simp: pullAddToSet_def length_remove1 split: if_splits
           dest: le_less_trans[OF length_filter_le])

lemma router_gtrans:
  assumes "i < length (groups d)"
  shows "i < length (groups (fst (groupsRouter L newId now userId req d))) \<and>
         gtrans (groups d ! i) (groups (fst (groupsRouter L newId now userId req d)) ! i)"
proof (cases req)
  case (PostGroups b)
  from createGroup_groups[of L newId userId b d] assms show ?thesis
    unfolding PostGroups by (auto simp: nth_append intro: gtrans.stay)
next
  case (PostJoinOpen x)
  then show ?thesis using joinOpen_gtrans assms by simp
next
  case (PostRequestJoin x)
  then show ?thesis using assms by (simp add: gtrans.stay)
next
  case (PostDecision x y)
  then show ?thesis using decide_gtrans assms by simp
next
  case (PostLeave x)
  then show ?thesis using leave_gtrans assms by simp
next
  case (PostBanish x y)
  then show ?thesis using banish_gtrans assms by simp
next
  case (PostTransfer x y)
  then show ?thesis using transfer_gtrans assms by simp
next
  case (PostJoinWithInvite x)
  then show ?thesis using invite_gtrans assms by simp
qed

lemma router_new:
  assumes "length (groups d) \<le> i" "i < length (groups (fst (groupsRouter L newId now userId req d)))"
  shows "bannedUsers (groups (fst (groupsRouter L newId now userId req d)) ! i) = [] \<and>
         capacityInv (groups (fst (groupsRouter L newId now userId req d)) ! i)"
proof (cases req)
  case (PostGroups b)
  from createGroup_groups[of L newId userId b d] assms show ?thesis
    unfolding PostGroups by (auto simp: nth_append)
next
  case (PostJoinOpen x)
  then show ?thesis using joinOpen_gtrans assms by simp
next
  case (PostRequestJoin x)
  then show ?thesis using assms by simp
next
  case (PostDecision x y)
  then show ?thesis using decide_gtrans assms by simp
next
  case (PostLeave x)
  then show ?thesis using leave_gtrans assms by simp
next
  case (PostBanish x y)
  then show ?thesis using banish_gtrans assms by simp
next
  case (PostTransfer x y)
  then show ?thesis using transfer_gtrans assms by simp
next
  case (PostJoinWithInvite x)
  then show ?thesis using invite_gtrans assms by simp
qed

lemma router_length:
  "length (groups d) \<le> length (groups (fst (groupsRouter L newId now userId req d)))"
proof (cases req)
  case (PostGroups b)
  from createGroup_groups[of L newId userId b d] show ?thesis
    unfolding PostGroups by auto
qed (simp_all add: joinOpen_gtrans decide_gtrans leave_gtrans banish_gtrans transfer_gtrans
      invite_gtrans)

section \<open>C1: members and banned stay disjoint\<close>

text \<open>
  Claim C1. A stored group is a position of the group collection. For every request of the
  membership operations (create, join an open group, request to join, decide a request,
  leave, banish, transfer ownership, redeem an invite), every platform and every database:
  no group is removed; a group whose members and banned users are disjoint before the
  request is the same group (same id) with disjoint members and banned users after it; and
  a group the request creates has them disjoint. Banishing filters the target out of the
  members as it pushes it to the banned list, and approving pulls the user from the banned
  list as it adds it to the members: the two cases of \<open>gtrans\<close> that touch the
  banned list.
\<close>

theorem members_banned_disjoint_preserved:
  "length (groups d) \<le> length (groups (fst (groupsRouter L newId now userId req d))) \<and>
   (\<forall>i<length (groups d). disjointInv (groups d ! i) \<longrightarrow>
      g_id (groups (fst (groupsRouter L newId now userId req d)) ! i) = g_id (groups d ! i) \<and>
      disjointInv (groups (fst (groupsRouter L newId now userId req d)) ! i)) \<and>
   (\<forall>i. length (groups d) \<le> i \<and> i < length (groups (fst (groupsRouter L newId now userId req d)))
      \<longrightarrow> disjointInv (groups (fst (groupsRouter L newId now userId req d)) ! i))"
proof (intro conjI allI impI)
  show "length (groups d) \<le> length (groups (fst (groupsRouter L newId now userId req d)))"
    by (rule router_length)
next
  fix i assume "i < length (groups d)" "disjointInv (groups d ! i)"
  with router_gtrans[of i d L newId now userId req]
  show "g_id (groups (fst (groupsRouter L newId now userId req d)) ! i) = g_id (groups d ! i)"
    and "disjointInv (groups (fst (groupsRouter L newId now userId req d)) ! i)"
    by (auto dest: gtrans_id gtrans_disjoint)
next
  fix i assume "length (groups d) \<le> i \<and> i < length (groups (fst (groupsRouter L newId now userId req d)))"
  with router_new[of d i L newId now userId req]
  show "disjointInv (groups (fst (groupsRouter L newId now userId req d)) ! i)"
    by (simp add: disjointInv_def)
qed

theorem members_banned_disjoint_witness:
  "0 < length (groups demoDb) \<and> disjointInv (groups demoDb ! 0) \<and>
   disjointInv (groups (fst (groupsRouter demoPlatform nid 0 alice (PostBanish grp bob) demoDb)) ! 0) \<and>
   members (groups (fst (groupsRouter demoPlatform nid 0 alice (PostBanish grp bob) demoDb)) ! 0) = [alice] \<and>
   bannedUsers (groups (fst (groupsRouter demoPlatform nid 0 alice (PostBanish grp bob) demoDb)) ! 0) = [bob]"
proof -
  have a: "0 < length (groups demoDb)" by (simp add: demoDb_def)
  have b: "disjointInv (groups demoDb ! 0)" by (simp add: demoDb_def demoGroup_def disjointInv_def)
  have c: "disjointInv (groups (fst (groupsRouter demoPlatform nid 0 alice (PostBanish grp bob) demoDb)) ! 0)"
    using members_banned_disjoint_preserved[of demoDb demoPlatform nid 0 alice "PostBanish grp bob"] a b
    by blast
  have e: "groups (fst (groupsRouter demoPlatform nid 0 alice (PostBanish grp bob) demoDb)) =
    [demoGroup\<lparr>members := [alice], bannedUsers := [bob]\<rparr>]"
    by (simp add: banishMember_def findGroupById_def saveGroup_def Let_def demo_defs)
  show ?thesis using a b c unfolding e by simp
qed

section \<open>C2: the capacity bound\<close>

text \<open>
  Claim C2. For every request of the membership operations run on its own: a group that
  satisfies \<open>maxMembers = 0 \<or> |members| \<le> maxMembers\<close> before the request
  satisfies it after; whenever the member list of a group grows, it grows by one and
  \<open>capacityOk\<close> held of the group before (unlimited, or strictly below the
  capacity); and a group the request creates satisfies the bound. The member count is the
  length of the stored array, as \<^verbatim>\<open>capacityOk\<close> counts it.
\<close>

theorem capacity_preserved:
  "length (groups d) \<le> length (groups (fst (groupsRouter L newId now userId req d))) \<and>
   (\<forall>i<length (groups d). capacityInv (groups d ! i) \<longrightarrow>
      g_id (groups (fst (groupsRouter L newId now userId req d)) ! i) = g_id (groups d ! i) \<and>
      capacityInv (groups (fst (groupsRouter L newId now userId req d)) ! i)) \<and>
   (\<forall>i<length (groups d).
      length (members (groups d ! i)) <
        length (members (groups (fst (groupsRouter L newId now userId req d)) ! i)) \<longrightarrow>
      capacityOk (groups d ! i) \<and>
      length (members (groups (fst (groupsRouter L newId now userId req d)) ! i)) =
        Suc (length (members (groups d ! i)))) \<and>
   (\<forall>i. length (groups d) \<le> i \<and> i < length (groups (fst (groupsRouter L newId now userId req d)))
      \<longrightarrow> capacityInv (groups (fst (groupsRouter L newId now userId req d)) ! i))"
proof (intro conjI allI impI)
  show "length (groups d) \<le> length (groups (fst (groupsRouter L newId now userId req d)))"
    by (rule router_length)
next
  fix i assume "i < length (groups d)" "capacityInv (groups d ! i)"
  with router_gtrans[of i d L newId now userId req]
  show "g_id (groups (fst (groupsRouter L newId now userId req d)) ! i) = g_id (groups d ! i)"
    and "capacityInv (groups (fst (groupsRouter L newId now userId req d)) ! i)"
    by (auto dest: gtrans_id gtrans_capacity)
next
  fix i assume "i < length (groups d)"
    "length (members (groups d ! i)) <
       length (members (groups (fst (groupsRouter L newId now userId req d)) ! i))"
  with router_gtrans[of i d L newId now userId req]
  show "capacityOk (groups d ! i)"
    and "length (members (groups (fst (groupsRouter L newId now userId req d)) ! i)) =
           Suc (length (members (groups d ! i)))"
    by (auto dest: gtrans_grows)
next
  fix i assume "length (groups d) \<le> i \<and> i < length (groups (fst (groupsRouter L newId now userId req d)))"
  with router_new[of d i L newId now userId req]
  show "capacityInv (groups (fst (groupsRouter L newId now userId req d)) ! i)"
    by simp
qed

theorem capacity_preserved_witness:
  "0 < length (groups demoDb) \<and> capacityInv (groups demoDb ! 0) \<and>
   capacityInv (groups (fst (groupsRouter demoPlatform nid 9 alice (PostDecision nid (Some Approve))
      (demoDb\<lparr>joinRequests := [pendingCarol]\<rparr>))) ! 0) \<and>
   groupsRouter demoPlatform nid 9 alice (PostDecision nid (Some Approve))
      (demoDb\<lparr>joinRequests := [pendingCarol]\<rparr>) =
     (demoDb\<lparr>joinRequests := [pendingCarol]\<rparr>, Response 400 (Error ''Group is full''))"
proof -
  let ?d = "demoDb\<lparr>joinRequests := [pendingCarol]\<rparr>"
  have a: "0 < length (groups ?d)" by (simp add: demoDb_def)
  have b: "capacityInv (groups ?d ! 0)" by (simp add: demoDb_def demoGroup_def capacityInv_def)
  have c: "capacityInv (groups (fst (groupsRouter demoPlatform nid 9 alice (PostDecision nid (Some Approve)) ?d)) ! 0)"
    using capacity_preserved[of ?d demoPlatform nid 9 alice "PostDecision nid (Some Approve)"] a b
    by blast
  have e: "groupsRouter demoPlatform nid 9 alice (PostDecision nid (Some Approve)) ?d =
     (?d, Response 400 (Error ''Group is full''))"
    by (simp add: decideJoinRequest_def findGroupById_def capacityOk_def pendingCarol_def demo_defs)
  show ?thesis using a b c e by simp
qed

section \<open>C3: a banned user who tries to join\<close>

lemma find_updateOne:
  "find P xs = Some x \<Longrightarrow> P (f x) \<Longrightarrow> find P (updateOne P f xs) = Some (f x)"
  by (induction xs) (auto split: if_splits)

lemma find_append_new:
  "find P xs = None \<Longrightarrow> P r \<Longrightarrow> find P (xs @ [r]) = Some r"
  by (induction xs) (auto split: if_splits)

lemma banned_join_eq:
  assumes "isValidObjectId L groupId" and "findGroupById groupId d = Some g"
    and "userId \<in> set (bannedUsers g)" and "gtype g = Open \<or> userId \<notin> set (members g)"
  shows "(if gtype g = Open then joinOpenGroup L newId now userId groupId d
          else requestJoinPrivate L newId now userId groupId d) =
         (fst (upsertPending newId now (g_id g) userId d),
          Response 403 (Error ''You are banned. A join request is now pending for owner approval.''))"
proof -
  have np: "gtype g \<noteq> Open \<Longrightarrow> gtype g = Private" by (cases "gtype g") auto
  show ?thesis using assms np
    by (auto simp: joinOpenGroup_def requestJoinPrivate_def ensureNotBanned_def)
qed

text \<open>
  Claim C3. Let the user be in the banned list of a stored group, and let the user call
  the join operation of the group's kind: \<^verbatim>\<open>joinOpenGroup\<close> for an open group,
  \<^verbatim>\<open>requestJoinPrivate\<close> for a private one, where the user is not also a member
  (members and banned users are disjoint, as C1 keeps them; a member would be answered
  \<^verbatim>\<open>Already a member\<close> first). The call answers 403 with the
  message that a request is now pending. After it the join request of the pair is pending:
  a request that existed keeps its place and its other fields and has its status
  overwritten, whatever it was; when there was none, a pending request is appended. The
  groups (so the members and the banned list), users, leave history, invites and messages
  are unchanged.
\<close>

theorem banned_join_reflags_pending:
  assumes "isValidObjectId L groupId" and "findGroupById groupId d = Some g"
    and "userId \<in> set (bannedUsers g)" and "gtype g = Open \<or> userId \<notin> set (members g)"
  shows "\<exists>d'. (if gtype g = Open then joinOpenGroup L newId now userId groupId d
               else requestJoinPrivate L newId now userId groupId d) =
              (d', Response 403
                 (Error ''You are banned. A join request is now pending for owner approval.'')) \<and>
           groups d' = groups d \<and> users d' = users d \<and> leaveHistories d' = leaveHistories d \<and>
           invites d' = invites d \<and> messages d' = messages d \<and>
           (case find (\<lambda>r. jr_group r = groupId \<and> jr_user r = userId) (joinRequests d) of
              Some r \<Rightarrow>
                joinRequests d' =
                  updateOne (\<lambda>r. jr_group r = groupId \<and> jr_user r = userId)
                    (\<lambda>r. r\<lparr>status := Pending\<rparr>) (joinRequests d) \<and>
                find (\<lambda>r. jr_group r = groupId \<and> jr_user r = userId) (joinRequests d') =
                  Some (r\<lparr>status := Pending\<rparr>)
            | None \<Rightarrow>
                joinRequests d' = joinRequests d @
                  [\<lparr>jr_id = newId, jr_group = groupId, jr_user = userId, status = Pending,
                    jr_createdAt = now\<rparr>] \<and>
                find (\<lambda>r. jr_group r = groupId \<and> jr_user r = userId) (joinRequests d') =
                  Some \<lparr>jr_id = newId, jr_group = groupId, jr_user = userId, status = Pending,
                        jr_createdAt = now\<rparr>)"
proof -
  have G: "g_id g = groupId" using assms(2) by (rule findGroupById_id)
  let ?P = "\<lambda>r. jr_group r = groupId \<and> jr_user r = userId"
  let ?d' = "fst (upsertPending newId now groupId userId d)"
  have E: "(if gtype g = Open then joinOpenGroup L newId now userId groupId d
            else requestJoinPrivate L newId now userId groupId d) =
           (?d', Response 403
              (Error ''You are banned. A join request is now pending for owner approval.''))"
    using banned_join_eq[OF assms] unfolding G .
  have F: "groups ?d' = groups d \<and> users ?d' = users d \<and> leaveHistories ?d' = leaveHistories d \<and>
           invites ?d' = invites d \<and> messages ?d' = messages d"
    by (simp add: upsertPending_def Let_def split: option.splits)
  have J: "case find ?P (joinRequests d) of
              Some r \<Rightarrow>
                joinRequests ?d' = updateOne ?P (\<lambda>r. r\<lparr>status := Pending\<rparr>) (joinRequests d) \<and>
                find ?P (joinRequests ?d') = Some (r\<lparr>status := Pending\<rparr>)
            | None \<Rightarrow>
                joinRequests ?d' = joinRequests d @
                  [\<lparr>jr_id = newId, jr_group = groupId, jr_user = userId, status = Pending,
                    jr_createdAt = now\<rparr>] \<and>
                find ?P (joinRequests ?d') =
                  Some \<lparr>jr_id = newId, jr_group = groupId, jr_user = userId, status = Pending,
                        jr_createdAt = now\<rparr>"
  proof (cases "find ?P (joinRequests d)")
    case None
    then show ?thesis by (simp add: upsertPending_def Let_def find_append_new)
  next
    case (Some r)
    then have "?P r" by (rule find_SomeD)
    with Some show ?thesis by (simp add: upsertPending_def find_updateOne)
  qed
  show ?thesis using E F J by blast
qed

theorem banned_join_reflags_pending_witness:
  "isValidObjectId demoPlatform grp \<and>
   findGroupById grp bannedDb = Some (demoGroup\<lparr>members := [alice], bannedUsers := [bob]\<rparr>) \<and>
   bob \<in> set (bannedUsers (demoGroup\<lparr>members := [alice], bannedUsers := [bob]\<rparr>)) \<and>
   bob \<notin> set (members (demoGroup\<lparr>members := [alice], bannedUsers := [bob]\<rparr>)) \<and>
   requestJoinPrivate demoPlatform carol 7 bob grp bannedDb =
     (bannedDb\<lparr>joinRequests := [\<lparr>jr_id = nid, jr_group = grp, jr_user = bob, status = Pending,
                                    jr_createdAt = 5\<rparr>]\<rparr>,
      Response 403 (Error ''You are banned. A join request is now pending for owner approval.''))"
proof -
  let ?g = "demoGroup\<lparr>members := [alice], bannedUsers := [bob]\<rparr>"
  have a: "isValidObjectId demoPlatform grp" by (simp add: demo_defs)
  have b: "findGroupById grp bannedDb = Some ?g"
    by (simp add: findGroupById_def bannedDb_def demo_defs)
  have c: "bob \<in> set (bannedUsers ?g)" by simp
  have e: "bob \<notin> set (members ?g)" by (simp add: demo_defs)
  have e': "gtype ?g = Open \<or> bob \<notin> set (members ?g)" using e by simp
  have f: "gtype ?g \<noteq> Open" by (simp add: demo_defs)
  have j: "find (\<lambda>r. jr_group r = grp \<and> jr_user r = bob) (joinRequests bannedDb) =
     Some \<lparr>jr_id = nid, jr_group = grp, jr_user = bob, status = Declined, jr_createdAt = 5\<rparr>"
    by (simp add: bannedDb_def)
  from banned_join_reflags_pending[OF a b c e', of carol 7]
  obtain d' where d': "requestJoinPrivate demoPlatform carol 7 bob grp bannedDb =
     (d', Response 403 (Error ''You are banned. A join request is now pending for owner approval.''))"
     and frame: "groups d' = groups bannedDb" "users d' = users bannedDb"
       "leaveHistories d' = leaveHistories bannedDb" "invites d' = invites bannedDb"
       "messages d' = messages bannedDb"
     and jr: "joinRequests d' = updateOne (\<lambda>r. jr_group r = grp \<and> jr_user r = bob)
                    (\<lambda>r. r\<lparr>status := Pending\<rparr>) (joinRequests bannedDb)"
    using f unfolding j by auto
  have "d' = bannedDb\<lparr>joinRequests := [\<lparr>jr_id = nid, jr_group = grp, jr_user = bob, status = Pending,
                                    jr_createdAt = 5\<rparr>]\<rparr>"
    using frame jr by (simp add: bannedDb_def)
  with a b c e d' show ?thesis by simp
qed

section \<open>C4: deciding a join request\<close>

lemma decide_resolved:
  assumes "isValidObjectId L requestId"
    and "find (\<lambda>r. jr_id r = requestId) (joinRequests d) = Some jr"
    and "findGroupById (jr_group jr) d = Some g" and "owner g = userId"
    and "status jr \<noteq> Pending"
  shows "decideJoinRequest L userId requestId (Some dec) d =
         (d, Response 409 (ErrorStatus ''Request already resolved'' (status jr)))"
  using assms by (simp add: decideJoinRequest_def)

lemma decide_after:
  assumes "isValidObjectId L requestId"
    and "find (\<lambda>r. jr_id r = requestId) (joinRequests d) = Some jr"
    and "findGroupById (jr_group jr) d = Some g" and "owner g = userId"
    and "s \<noteq> Pending" and "owner (f g) = owner g" and "g_id (f g) = g_id g"
  shows "decideJoinRequest L userId requestId (Some dec)
           (saveJoinRequest (jr\<lparr>status := s\<rparr>)
              (d\<lparr>groups := updateOne (\<lambda>x. g_id x = g_id g) f (groups d)\<rparr>)) =
         (saveJoinRequest (jr\<lparr>status := s\<rparr>)
              (d\<lparr>groups := updateOne (\<lambda>x. g_id x = g_id g) f (groups d)\<rparr>),
          Response 409 (ErrorStatus ''Request already resolved'' s))"
proof -
  let ?d' = "saveJoinRequest (jr\<lparr>status := s\<rparr>)
              (d\<lparr>groups := updateOne (\<lambda>x. g_id x = g_id g) f (groups d)\<rparr>)"
  have I: "jr_id jr = requestId" using assms(2) by (drule_tac find_SomeD) simp
  have G: "g_id g = jr_group jr" using assms(3) by (rule findGroupById_id)
  have R: "find (\<lambda>r. jr_id r = requestId) (joinRequests ?d') = Some (jr\<lparr>status := s\<rparr>)"
    using find_updateOne[OF assms(2), of "\<lambda>x. jr\<lparr>status := s\<rparr>"] I
    by (simp add: saveJoinRequest_def)
  have F: "find (\<lambda>x. g_id x = jr_group jr) (groups d) = Some g"
    using assms(3) by (simp add: findGroupById_def)
  have Gr: "findGroupById (jr_group (jr\<lparr>status := s\<rparr>)) ?d' = Some (f g)"
    using find_updateOne[OF F, of f] assms(7) G
    by (simp add: findGroupById_def saveJoinRequest_def)
  show ?thesis
    using decide_resolved[OF assms(1) R Gr, of userId dec] assms(4,5,6) by simp
qed

text \<open>
  Claim C4. Let the request exist, its group exist, and the caller be the group's owner.
  (1) When the request is not pending, a decision answers 409 with the request's status
  and changes nothing. (2) When it is pending and the group is full (a nonzero capacity
  reached), approving answers 400 and changes nothing: the request stays pending, the
  members and banned users stay. (3) When it is pending and the group has room, approving
  answers 200; the group then has the user pulled from the banned list and added to the
  members unless already there, the request is approved, and every further decision on it
  answers 409 with status approved and changes nothing. (4) Declining a pending request
  answers 200, leaves the groups alone, marks the request declined, and every further
  decision on it answers 409 with status declined and changes nothing.
\<close>

theorem decide_request_single_shot:
  assumes "isValidObjectId L requestId"
    and "find (\<lambda>r. jr_id r = requestId) (joinRequests d) = Some jr"
    and "findGroupById (jr_group jr) d = Some g" and "owner g = userId"
  shows "(status jr \<noteq> Pending \<longrightarrow>
            decideJoinRequest L userId requestId (Some dec) d =
              (d, Response 409 (ErrorStatus ''Request already resolved'' (status jr)))) \<and>
         (status jr = Pending \<and> \<not> capacityOk g \<longrightarrow>
            decideJoinRequest L userId requestId (Some Approve) d =
              (d, Response 400 (Error ''Group is full''))) \<and>
         (status jr = Pending \<and> capacityOk g \<longrightarrow>
            (\<exists>d'. decideJoinRequest L userId requestId (Some Approve) d =
                    (d', Response 200 (MsgStatus ''Decision recorded'' Approved)) \<and>
                  findGroupById (jr_group jr) d' =
                    Some (g\<lparr>bannedUsers := removeAll (jr_user jr) (bannedUsers g),
                            members := (if jr_user jr \<in> set (members g) then members g
                                        else members g @ [jr_user jr])\<rparr>) \<and>
                  find (\<lambda>r. jr_id r = requestId) (joinRequests d') = Some (jr\<lparr>status := Approved\<rparr>) \<and>
                  (\<forall>dec'. decideJoinRequest L userId requestId (Some dec') d' =
                     (d', Response 409 (ErrorStatus ''Request already resolved'' Approved))))) \<and>
         (status jr = Pending \<longrightarrow>
            (\<exists>d'. decideJoinRequest L userId requestId (Some Decline) d =
                    (d', Response 200 (MsgStatus ''Decision recorded'' Declined)) \<and>
                  groups d' = groups d \<and>
                  find (\<lambda>r. jr_id r = requestId) (joinRequests d') = Some (jr\<lparr>status := Declined\<rparr>) \<and>
                  (\<forall>dec'. decideJoinRequest L userId requestId (Some dec') d' =
                     (d', Response 409 (ErrorStatus ''Request already resolved'' Declined)))))"
proof (intro conjI impI)
  assume "status jr \<noteq> Pending"
  then show "decideJoinRequest L userId requestId (Some dec) d =
              (d, Response 409 (ErrorStatus ''Request already resolved'' (status jr)))"
    using decide_resolved[OF assms] by simp
next
  assume "status jr = Pending \<and> \<not> capacityOk g"
  then show "decideJoinRequest L userId requestId (Some Approve) d =
              (d, Response 400 (Error ''Group is full''))"
    using assms by (simp add: decideJoinRequest_def)
next
  assume A: "status jr = Pending \<and> capacityOk g"
  let ?d' = "saveJoinRequest (jr\<lparr>status := Approved\<rparr>)
              (d\<lparr>groups := updateOne (\<lambda>x. g_id x = g_id g) (pullAddToSet (jr_user jr)) (groups d)\<rparr>)"
  have I: "jr_id jr = requestId" using assms(2) by (drule_tac find_SomeD) simp
  have G: "g_id g = jr_group jr" using assms(3) by (rule findGroupById_id)
  have F: "find (\<lambda>x. g_id x = jr_group jr) (groups d) = Some g"
    using assms(3) by (simp add: findGroupById_def)
  have 1: "decideJoinRequest L userId requestId (Some Approve) d =
             (?d', Response 200 (MsgStatus ''Decision recorded'' Approved))"
    using assms A by (simp add: decideJoinRequest_def)
  have 2: "findGroupById (jr_group jr) ?d' = Some (pullAddToSet (jr_user jr) g)"
    using find_updateOne[OF F, of "pullAddToSet (jr_user jr)"] G
    by (simp add: findGroupById_def saveJoinRequest_def pullAddToSet_def)
  have 3: "find (\<lambda>r. jr_id r = requestId) (joinRequests ?d') = Some (jr\<lparr>status := Approved\<rparr>)"
    using find_updateOne[OF assms(2), of "\<lambda>x. jr\<lparr>status := Approved\<rparr>"] I
    by (simp add: saveJoinRequest_def)
  have 4: "\<forall>dec'. decideJoinRequest L userId requestId (Some dec') ?d' =
             (?d', Response 409 (ErrorStatus ''Request already resolved'' Approved))"
    using decide_after[OF assms, of Approved "pullAddToSet (jr_user jr)"]
    by (simp add: pullAddToSet_def)
  show "\<exists>d'. decideJoinRequest L userId requestId (Some Approve) d =
                    (d', Response 200 (MsgStatus ''Decision recorded'' Approved)) \<and>
                  findGroupById (jr_group jr) d' =
                    Some (g\<lparr>bannedUsers := removeAll (jr_user jr) (bannedUsers g),
                            members := (if jr_user jr \<in> set (members g) then members g
                                        else members g @ [jr_user jr])\<rparr>) \<and>
                  find (\<lambda>r. jr_id r = requestId) (joinRequests d') = Some (jr\<lparr>status := Approved\<rparr>) \<and>
                  (\<forall>dec'. decideJoinRequest L userId requestId (Some dec') d' =
                     (d', Response 409 (ErrorStatus ''Request already resolved'' Approved)))"
    using 1 2 3 4 unfolding pullAddToSet_def by blast
next
  assume A: "status jr = Pending"
  let ?d' = "saveJoinRequest (jr\<lparr>status := Declined\<rparr>) d"
  have I: "jr_id jr = requestId" using assms(2) by (drule_tac find_SomeD) simp
  have 1: "decideJoinRequest L userId requestId (Some Decline) d =
             (?d', Response 200 (MsgStatus ''Decision recorded'' Declined))"
    using assms A by (simp add: decideJoinRequest_def)
  have 3: "find (\<lambda>r. jr_id r = requestId) (joinRequests ?d') = Some (jr\<lparr>status := Declined\<rparr>)"
    using find_updateOne[OF assms(2), of "\<lambda>x. jr\<lparr>status := Declined\<rparr>"] I
    by (simp add: saveJoinRequest_def)
  have Gr: "findGroupById (jr_group (jr\<lparr>status := Declined\<rparr>)) ?d' = Some g"
    using assms(3) by (simp add: findGroupById_def saveJoinRequest_def)
  have 4: "\<forall>dec'. decideJoinRequest L userId requestId (Some dec') ?d' =
             (?d', Response 409 (ErrorStatus ''Request already resolved'' Declined))"
    using decide_resolved[OF assms(1) 3 Gr assms(4)] by simp
  show "\<exists>d'. decideJoinRequest L userId requestId (Some Decline) d =
                    (d', Response 200 (MsgStatus ''Decision recorded'' Declined)) \<and>
                  groups d' = groups d \<and>
                  find (\<lambda>r. jr_id r = requestId) (joinRequests d') = Some (jr\<lparr>status := Declined\<rparr>) \<and>
                  (\<forall>dec'. decideJoinRequest L userId requestId (Some dec') d' =
                     (d', Response 409 (ErrorStatus ''Request already resolved'' Declined)))"
    using 1 3 4 by (intro exI[of _ ?d']) simp
qed

theorem decide_request_single_shot_witness:
  "isValidObjectId demoPlatform nid \<and>
   find (\<lambda>r. jr_id r = nid) (joinRequests approveDb) = Some pendingCarol \<and>
   findGroupById (jr_group pendingCarol) approveDb =
     Some (demoGroup\<lparr>members := [alice], bannedUsers := [carol]\<rparr>) \<and>
   owner (demoGroup\<lparr>members := [alice], bannedUsers := [carol]\<rparr>) = alice \<and>
   status pendingCarol = Pending \<and>
   capacityOk (demoGroup\<lparr>members := [alice], bannedUsers := [carol]\<rparr>) \<and>
   decideJoinRequest demoPlatform alice nid (Some Approve) approveDb =
     (approveDb\<lparr>groups := [demoGroup\<lparr>members := [alice, carol], bannedUsers := []\<rparr>],
                joinRequests := [pendingCarol\<lparr>status := Approved\<rparr>]\<rparr>,
      Response 200 (MsgStatus ''Decision recorded'' Approved)) \<and>
   decideJoinRequest demoPlatform alice nid (Some Decline)
     (approveDb\<lparr>groups := [demoGroup\<lparr>members := [alice, carol], bannedUsers := []\<rparr>],
                joinRequests := [pendingCarol\<lparr>status := Approved\<rparr>]\<rparr>) =
     (approveDb\<lparr>groups := [demoGroup\<lparr>members := [alice, carol], bannedUsers := []\<rparr>],
                joinRequests := [pendingCarol\<lparr>status := Approved\<rparr>]\<rparr>,
      Response 409 (ErrorStatus ''Request already resolved'' Approved))"
proof -
  let ?g = "demoGroup\<lparr>members := [alice], bannedUsers := [carol]\<rparr>"
  let ?d1 = "approveDb\<lparr>groups := [demoGroup\<lparr>members := [alice, carol], bannedUsers := []\<rparr>],
                joinRequests := [pendingCarol\<lparr>status := Approved\<rparr>]\<rparr>"
  have a: "isValidObjectId demoPlatform nid" by (simp add: demo_defs)
  have b: "find (\<lambda>r. jr_id r = nid) (joinRequests approveDb) = Some pendingCarol"
    by (simp add: approveDb_def pendingCarol_def)
  have c: "findGroupById (jr_group pendingCarol) approveDb = Some ?g"
    by (simp add: findGroupById_def approveDb_def pendingCarol_def demo_defs)
  have e: "owner ?g = alice" by (simp add: demo_defs)
  have p: "status pendingCarol = Pending" by (simp add: pendingCarol_def)
  have k: "capacityOk ?g" by (simp add: capacityOk_def demo_defs)
  have r1: "decideJoinRequest demoPlatform alice nid (Some Approve) approveDb =
     (?d1, Response 200 (MsgStatus ''Decision recorded'' Approved))"
    using a b c e p k
    by (simp add: decideJoinRequest_def saveJoinRequest_def pullAddToSet_def approveDb_def
        pendingCarol_def demo_defs)
  from decide_request_single_shot[OF a b c e, of Approve] p k r1
  have "decideJoinRequest demoPlatform alice nid (Some Decline) ?d1 =
     (?d1, Response 409 (ErrorStatus ''Request already resolved'' Approved))"
    by auto
  with a b c e p k r1 show ?thesis by simp
qed

section \<open>C5: creating a group\<close>






section \<open>C6: an invite of one use\<close>

lemma find_updateOne_key:
  "find P xs = Some x \<Longrightarrow> distinct (map k xs) \<Longrightarrow> P (f x) \<Longrightarrow>
   find P (updateOne (\<lambda>y. k y = k x) f xs) = Some (f x)"
proof (induction xs)
  case Nil
  then show ?case by simp
next
  case (Cons a xs)
  show ?case
  proof (cases "P a")
    case True
    with Cons.prems show ?thesis by simp
  next
    case False
    with Cons.prems have F: "find P xs = Some x" by simp
    then have "x \<in> set xs" by (induction xs) (auto split: if_splits)
    with Cons.prems(2) have "k a \<noteq> k x" by auto
    with False Cons.IH[OF F] Cons.prems show ?thesis by simp
  qed
qed

lemma invite_disabled:
  assumes "find (\<lambda>i. tokenHash i = sha256 L token) (invites d) = Some i" "disabled i"
    and "token \<noteq> []"
  shows "joinWithInvite L now userId token d = (d, Response 400 (Error ''Invalid invite''))"
  using assms by (simp add: joinWithInvite_def)

text \<open>
  Claim C6, as stated, fails in the error of the later attempts. The controller disables
  the invite when its last use is consumed, and it tests \<^verbatim>\<open>invite.disabled\<close>
  before \<^verbatim>\<open>invite.uses >= invite.maxUses\<close>: the second attempt answers
  \<^verbatim>\<open>Invalid invite\<close>, not \<^verbatim>\<open>Invite exhausted\<close>.
\<close>

theorem invite_second_attempt_counterexample:
  "snd (joinWithInvite demoPlatform 5 bob tok inviteDb) =
     Response 200 (MsgGroup ''Joined via invite'' grp) \<and>
   snd (joinWithInvite demoPlatform 6 carol tok (fst (joinWithInvite demoPlatform 5 bob tok inviteDb))) =
     Response 400 (Error ''Invalid invite'') \<and>
   snd (joinWithInvite demoPlatform 6 carol tok (fst (joinWithInvite demoPlatform 5 bob tok inviteDb))) \<noteq>
     Response 400 (Error ''Invite exhausted'')"
proof -
  have 1: "joinWithInvite demoPlatform 5 bob tok inviteDb =
    (inviteDb\<lparr>groups := [demoGroup\<lparr>members := [alice, bob], maxMembers := 0\<rparr>],
               invites := [demoInvite\<lparr>uses := 1, disabled := True\<rparr>]\<rparr>,
     Response 200 (MsgGroup ''Joined via invite'' grp))"
    by (simp add: joinWithInvite_def findGroupById_def saveGroup_def saveInvite_def capacityOk_def
        Let_def inviteDb_def demoInvite_def tok_def inv1_def demo_defs)
  have 2: "joinWithInvite demoPlatform 6 carol tok
     (inviteDb\<lparr>groups := [demoGroup\<lparr>members := [alice, bob], maxMembers := 0\<rparr>],
               invites := [demoInvite\<lparr>uses := 1, disabled := True\<rparr>]\<rparr>) =
    (inviteDb\<lparr>groups := [demoGroup\<lparr>members := [alice, bob], maxMembers := 0\<rparr>],
               invites := [demoInvite\<lparr>uses := 1, disabled := True\<rparr>]\<rparr>,
     Response 400 (Error ''Invalid invite''))"
    by (simp add: joinWithInvite_def inviteDb_def demoInvite_def tok_def inv1_def demo_defs)
  show ?thesis using 2 unfolding 1 by simp
qed

text \<open>
  Claim C6, amended. Take a fresh invite of one use (no use consumed, not disabled), found
  by the hash of the token in a collection whose ids are distinct, not expired, for a
  stored group that has room and has not banned the caller. The redemption answers 200;
  the group then has the caller among its members (added unless already there), and the
  invite has one use and is disabled. Every later attempt with the same token, by any user
  at any time, answers 400 with \<^verbatim>\<open>Invalid invite\<close> and changes nothing.
\<close>

theorem invite_single_use:
  assumes "1 \<le> length token"
    and "find (\<lambda>i. tokenHash i = sha256 L token) (invites d) = Some invite"
    and "distinct (map inv_id (invites d))"
    and "maxUses invite = 1" and "uses invite = 0" and "\<not> disabled invite"
    and "now < expiresAt invite"
    and "findGroupById (inv_group invite) d = Some g"
    and "userId \<notin> set (bannedUsers g)" and "capacityOk g"
  shows "\<exists>d'. joinWithInvite L now userId token d =
                (d', Response 200 (MsgGroup ''Joined via invite'' (g_id g))) \<and>
              findGroupById (inv_group invite) d' =
                Some (g\<lparr>members := (if userId \<in> set (members g) then members g
                                    else members g @ [userId])\<rparr>) \<and>
              find (\<lambda>i. tokenHash i = sha256 L token) (invites d') =
                Some (invite\<lparr>uses := 1, disabled := True\<rparr>) \<and>
              (\<forall>now' userId'. joinWithInvite L now' userId' token d' =
                 (d', Response 400 (Error ''Invalid invite'')))"
proof -
  let ?g' = "g\<lparr>members := (if userId \<in> set (members g) then members g else members g @ [userId])\<rparr>"
  let ?i' = "invite\<lparr>uses := 1, disabled := True\<rparr>"
  let ?d1 = "if userId \<notin> set (members g) then saveGroup (g\<lparr>members := members g @ [userId]\<rparr>) d else d"
  let ?d' = "saveInvite ?i' ?d1"
  have G: "g_id g = inv_group invite" using assms(8) by (rule findGroupById_id)
  have F: "find (\<lambda>x. g_id x = inv_group invite) (groups d) = Some g"
    using assms(8) by (simp add: findGroupById_def)
  have N: "token \<noteq> []" using assms(1) by auto
  have 1: "joinWithInvite L now userId token d =
             (?d', Response 200 (MsgGroup ''Joined via invite'' (g_id g)))"
    using assms(2-) N by (simp add: joinWithInvite_def Let_def)
  have 2: "findGroupById (inv_group invite) ?d' = Some ?g'"
  proof (cases "userId \<in> set (members g)")
    case True
    then show ?thesis using assms(8) by (simp add: findGroupById_def)
  next
    case False
    then show ?thesis
      using find_updateOne[OF F, of "\<lambda>x. g\<lparr>members := members g @ [userId]\<rparr>"] G
      by (simp add: findGroupById_def saveGroup_def)
  qed
  have I: "invites ?d1 = invites d" by (simp add: saveGroup_def)
  have 3: "find (\<lambda>i. tokenHash i = sha256 L token) (invites ?d') = Some ?i'"
  proof -
    have T: "tokenHash invite = sha256 L token" using assms(2) by (drule_tac find_SomeD) simp
    have "find (\<lambda>i. tokenHash i = sha256 L token)
            (updateOne (\<lambda>y. inv_id y = inv_id invite) (\<lambda>x. ?i') (invites d)) = Some ?i'"
      using find_updateOne_key[OF assms(2,3), of "\<lambda>x. ?i'"] T by simp
    then show ?thesis unfolding saveInvite_def I by simp
  qed
  have 4: "\<forall>now' userId'. joinWithInvite L now' userId' token ?d' =
                 (?d', Response 400 (Error ''Invalid invite''))"
    using invite_disabled[OF 3 _ N] by simp
  show ?thesis using 1 2 3 4 by blast
qed

theorem invite_single_use_witness:
  "1 \<le> length tok \<and>
   find (\<lambda>i. tokenHash i = sha256 demoPlatform tok) (invites inviteDb) = Some demoInvite \<and>
   distinct (map inv_id (invites inviteDb)) \<and>
   maxUses demoInvite = 1 \<and> uses demoInvite = 0 \<and> \<not> disabled demoInvite \<and>
   5 < expiresAt demoInvite \<and>
   findGroupById (inv_group demoInvite) inviteDb =
     Some (demoGroup\<lparr>members := [alice], maxMembers := 0\<rparr>) \<and>
   bob \<notin> set (bannedUsers (demoGroup\<lparr>members := [alice], maxMembers := 0\<rparr>)) \<and>
   capacityOk (demoGroup\<lparr>members := [alice], maxMembers := 0\<rparr>) \<and>
   joinWithInvite demoPlatform 5 bob tok inviteDb =
    (inviteDb\<lparr>groups := [demoGroup\<lparr>members := [alice, bob], maxMembers := 0\<rparr>],
               invites := [demoInvite\<lparr>uses := 1, disabled := True\<rparr>]\<rparr>,
     Response 200 (MsgGroup ''Joined via invite'' grp)) \<and>
   joinWithInvite demoPlatform 200 alice tok
     (inviteDb\<lparr>groups := [demoGroup\<lparr>members := [alice, bob], maxMembers := 0\<rparr>],
               invites := [demoInvite\<lparr>uses := 1, disabled := True\<rparr>]\<rparr>) =
    (inviteDb\<lparr>groups := [demoGroup\<lparr>members := [alice, bob], maxMembers := 0\<rparr>],
               invites := [demoInvite\<lparr>uses := 1, disabled := True\<rparr>]\<rparr>,
     Response 400 (Error ''Invalid invite''))"
proof -
  let ?g = "demoGroup\<lparr>members := [alice], maxMembers := 0\<rparr>"
  let ?d1 = "inviteDb\<lparr>groups := [demoGroup\<lparr>members := [alice, bob], maxMembers := 0\<rparr>],
               invites := [demoInvite\<lparr>uses := 1, disabled := True\<rparr>]\<rparr>"
  have h1: "1 \<le> length tok" by (simp add: tok_def)
  have h2: "find (\<lambda>i. tokenHash i = sha256 demoPlatform tok) (invites inviteDb) = Some demoInvite"
    by (simp add: inviteDb_def demoInvite_def tok_def demo_defs)
  have h3: "distinct (map inv_id (invites inviteDb))" by (simp add: inviteDb_def)
  have h4: "maxUses demoInvite = 1" and h5: "uses demoInvite = 0" and h6: "\<not> disabled demoInvite"
    and h7: "5 < expiresAt demoInvite" by (simp_all add: demoInvite_def)
  have h8: "findGroupById (inv_group demoInvite) inviteDb = Some ?g"
    by (simp add: findGroupById_def inviteDb_def demoInvite_def demo_defs)
  have h9: "bob \<notin> set (bannedUsers ?g)" by (simp add: demo_defs)
  have h10: "capacityOk ?g" by (simp add: capacityOk_def)
  have r1: "joinWithInvite demoPlatform 5 bob tok inviteDb =
    (?d1, Response 200 (MsgGroup ''Joined via invite'' grp))"
    by (simp add: joinWithInvite_def findGroupById_def saveGroup_def saveInvite_def capacityOk_def
        Let_def inviteDb_def demoInvite_def tok_def inv1_def demo_defs)
  from invite_single_use[OF h1 h2 h3 h4 h5 h6 h7 h8 h9 h10] r1
  have "joinWithInvite demoPlatform 200 alice tok ?d1 = (?d1, Response 400 (Error ''Invalid invite''))"
    by auto
  with h1 h2 h3 h4 h5 h6 h7 h8 h9 h10 r1 show ?thesis by simp
qed

section \<open>C7: the cooldown after leaving a private group\<close>

lemma fold_max_Max: "fold max ts (t::int) = Max (set (t # ts))"
  by (rule Max.set_eq_fold[symmetric])

lemma lastLeave_Max:
  assumes "filter (\<lambda>h. lh_group h = gid \<and> lh_user h = uid) (leaveHistories d) \<noteq> []"
  shows "lastLeave gid uid d =
         Some (Max (set (map leftAt
           (filter (\<lambda>h. lh_group h = gid \<and> lh_user h = uid) (leaveHistories d)))))"
proof -
  let ?H = "filter (\<lambda>h. lh_group h = gid \<and> lh_user h = uid) (leaveHistories d)"
  from assms obtain h hs where H: "?H = h # hs" by (cases ?H) auto
  show ?thesis unfolding lastLeave_def H by (simp only: list.map list.case fold_max_Max)
qed

lemma hours_lt: "((of_int x :: rat) / 3600000 < 48) = (x < 172800000)"
proof -
  have "((of_int x :: rat) / 3600000 < 48) = ((of_int x :: rat) < of_int 172800000)"
    by (simp add: divide_less_eq)
  also have "\<dots> = (x < 172800000)" by (simp only: of_int_less_iff)
  finally show ?thesis .
qed

lemma requestJoin_cooldown:
  assumes "isValidObjectId L groupId" and "findGroupById groupId d = Some g"
    and "gtype g = Private" and "userId \<notin> set (members g)" and "userId \<notin> set (bannedUsers g)"
    and "lastLeave groupId userId d = Some t" and "now - t < 172800000"
  shows "requestJoinPrivate L newId now userId groupId d =
         (d, Response 400 (ErrorCooldown \<lceil>48 - (of_int (now - t) :: rat) / 3600000\<rceil>))"
proof -
  have G: "g_id g = groupId" using assms(2) by (rule findGroupById_id)
  show ?thesis using assms(1-6) hours_lt[of "now - t"] assms(7)
    by (simp add: requestJoinPrivate_def ensureNotBanned_def G COOLDOWN_HOURS_def Let_def)
qed

lemma requestJoin_after:
  assumes "isValidObjectId L groupId" and "findGroupById groupId d = Some g"
    and "gtype g = Private" and "userId \<notin> set (members g)" and "userId \<notin> set (bannedUsers g)"
    and "lastLeave groupId userId d = Some t" and "172800000 \<le> now - t"
  shows "\<exists>d' r m. requestJoinPrivate L newId now userId groupId d =
                   (d', Response 200 (MsgRequest m (jr_id r))) \<and>
                 find (\<lambda>r. jr_group r = groupId \<and> jr_user r = userId) (joinRequests d') = Some r \<and>
                 status r = Pending \<and> groups d' = groups d \<and> leaveHistories d' = leaveHistories d"
proof -
  have G: "g_id g = groupId" using assms(2) by (rule findGroupById_id)
  let ?P = "\<lambda>r. jr_group r = groupId \<and> jr_user r = userId"
  have nc: "\<not> ((of_int (now - t) :: rat) / 3600000 < 48)"
    using hours_lt[of "now - t"] assms(7) by simp
  show ?thesis
  proof (cases "find ?P (joinRequests d)")
    case None
    let ?r = "\<lparr>jr_id = newId, jr_group = groupId, jr_user = userId, status = Pending,
                    jr_createdAt = now\<rparr>"
    have "requestJoinPrivate L newId now userId groupId d =
            (d\<lparr>joinRequests := joinRequests d @ [?r]\<rparr>,
             Response 200 (MsgRequest ''Join request submitted'' (jr_id ?r)))"
      using assms(1-6) nc None
      by (simp add: requestJoinPrivate_def ensureNotBanned_def G COOLDOWN_HOURS_def Let_def
          upsertPending_def)
    moreover have "find ?P (joinRequests (d\<lparr>joinRequests := joinRequests d @ [?r]\<rparr>)) = Some ?r"
      using None by (simp add: find_append_new)
    ultimately show ?thesis by (intro exI[of _ "d\<lparr>joinRequests := joinRequests d @ [?r]\<rparr>"] exI[of _ ?r] exI) simp
  next
    case (Some r)
    then have P: "?P r" by (rule find_SomeD)
    show ?thesis
    proof (cases "status r = Pending")
      case True
      have "requestJoinPrivate L newId now userId groupId d =
            (d, Response 200 (MsgRequest ''Join request already submitted'' (jr_id r)))"
        using assms(1-6) nc Some True
        by (simp add: requestJoinPrivate_def ensureNotBanned_def G COOLDOWN_HOURS_def Let_def)
      with Some True show ?thesis by (intro exI[of _ d] exI[of _ r] exI) simp
    next
      case False
      let ?d' = "d\<lparr>joinRequests := updateOne ?P (\<lambda>r. r\<lparr>status := Pending\<rparr>) (joinRequests d)\<rparr>"
      have "requestJoinPrivate L newId now userId groupId d =
            (?d', Response 200 (MsgRequest ''Join request submitted'' (jr_id (r\<lparr>status := Pending\<rparr>))))"
        using assms(1-6) nc Some False
        by (simp add: requestJoinPrivate_def ensureNotBanned_def G COOLDOWN_HOURS_def Let_def
            upsertPending_def)
      moreover have "find ?P (joinRequests ?d') = Some (r\<lparr>status := Pending\<rparr>)"
        using find_updateOne[OF Some, of "\<lambda>r. r\<lparr>status := Pending\<rparr>"] P by simp
      ultimately show ?thesis
        by (intro exI[of _ ?d'] exI[of _ "r\<lparr>status := Pending\<rparr>"] exI) simp
    qed
  qed
qed

lemma leave_history:
  "leaveHistories (fst (leaveGroup L newId now userId groupId d)) =
     (if statusCode (snd (leaveGroup L newId now userId groupId d)) = 200 \<and>
         (\<exists>g. findGroupById groupId d = Some g \<and> gtype g = Private)
      then leaveHistories d @ [\<lparr>lh_id = newId, lh_group = groupId, lh_user = userId, leftAt = now\<rparr>]
      else leaveHistories d)"
proof (cases "findGroupById groupId d")
  case None
  then show ?thesis by (simp add: leaveGroup_def)
next
  case (Some g)
  then have G: "g_id g = groupId" by (rule findGroupById_id)
  show ?thesis using Some G by (simp add: leaveGroup_def Let_def saveGroup_def)
qed

text \<open>
  Claim C7. Let the group be private and the user have left it: there is a leave record of
  the pair, the user is not a member, and is not banned (a member is answered
  \<^verbatim>\<open>Already a member\<close> and a banned user falls under C3, both before the
  cooldown is looked at). Let \<open>t\<close> be the greatest \<^verbatim>\<open>leftAt\<close> of the pair's
  records, in milliseconds; 48 hours are 172800000 ms. A request less than 48 hours after
  \<open>t\<close> answers 400 with the remaining hours \<open>\<lceil>48 - (now - t) / 3600000\<rceil>\<close>
  and changes nothing, so no join request is created or modified. A request at or after
  48 hours answers 200 with the id of the join request of the pair, which is then
  pending; groups and leave records are unchanged. \<^verbatim>\<open>leaveGroup\<close> appends a
  leave record exactly when it succeeds on a private group; for an open group, and when
  it fails, the leave records are unchanged.
\<close>

theorem cooldown_after_leave:
  assumes "isValidObjectId L groupId" and "findGroupById groupId d = Some g"
    and "gtype g = Private" and "userId \<notin> set (members g)" and "userId \<notin> set (bannedUsers g)"
    and "filter (\<lambda>h. lh_group h = groupId \<and> lh_user h = userId) (leaveHistories d) \<noteq> []"
    and "t = Max (set (map leftAt
               (filter (\<lambda>h. lh_group h = groupId \<and> lh_user h = userId) (leaveHistories d))))"
  shows "(now - t < 172800000 \<longrightarrow>
            requestJoinPrivate L newId now userId groupId d =
              (d, Response 400 (ErrorCooldown \<lceil>48 - (of_int (now - t) :: rat) / 3600000\<rceil>))) \<and>
         (172800000 \<le> now - t \<longrightarrow>
            (\<exists>d' r m. requestJoinPrivate L newId now userId groupId d =
                        (d', Response 200 (MsgRequest m (jr_id r))) \<and>
                      find (\<lambda>r. jr_group r = groupId \<and> jr_user r = userId) (joinRequests d') = Some r \<and>
                      status r = Pending \<and> groups d' = groups d \<and>
                      leaveHistories d' = leaveHistories d)) \<and>
         leaveHistories (fst (leaveGroup L2 newId2 now2 userId2 groupId2 d2)) =
           (if statusCode (snd (leaveGroup L2 newId2 now2 userId2 groupId2 d2)) = 200 \<and>
               (\<exists>g2. findGroupById groupId2 d2 = Some g2 \<and> gtype g2 = Private)
            then leaveHistories d2 @
                   [\<lparr>lh_id = newId2, lh_group = groupId2, lh_user = userId2, leftAt = now2\<rparr>]
            else leaveHistories d2)"
proof -
  have T: "lastLeave groupId userId d = Some t"
    using lastLeave_Max[OF assms(6)] assms(7) by simp
  show ?thesis
    using requestJoin_cooldown[OF assms(1-5) T, of now newId]
      requestJoin_after[OF assms(1-5) T, of now newId]
      leave_history[of L2 newId2 now2 userId2 groupId2 d2]
    by blast
qed

theorem cooldown_after_leave_witness:
  "leaveGroup demoPlatform nid 1000 bob grp demoDb = (leftDb, Response 200 (Msg ''Left group'')) \<and>
   isValidObjectId demoPlatform grp \<and>
   findGroupById grp leftDb = Some (demoGroup\<lparr>members := [alice]\<rparr>) \<and>
   gtype (demoGroup\<lparr>members := [alice]\<rparr>) = Private \<and>
   bob \<notin> set (members (demoGroup\<lparr>members := [alice]\<rparr>)) \<and>
   bob \<notin> set (bannedUsers (demoGroup\<lparr>members := [alice]\<rparr>)) \<and>
   filter (\<lambda>h. lh_group h = grp \<and> lh_user h = bob) (leaveHistories leftDb) \<noteq> [] \<and>
   (1000::int) = Max (set (map leftAt
      (filter (\<lambda>h. lh_group h = grp \<and> lh_user h = bob) (leaveHistories leftDb)))) \<and>
   requestJoinPrivate demoPlatform inv1 5401000 bob grp leftDb =
     (leftDb, Response 400 (ErrorCooldown 47)) \<and>
   requestJoinPrivate demoPlatform inv1 172801000 bob grp leftDb =
     (leftDb\<lparr>joinRequests := [\<lparr>jr_id = inv1, jr_group = grp, jr_user = bob, status = Pending,
                                  jr_createdAt = 172801000\<rparr>]\<rparr>,
      Response 200 (MsgRequest ''Join request submitted'' inv1))"
proof -
  let ?g = "demoGroup\<lparr>members := [alice]\<rparr>"
  have l: "leaveGroup demoPlatform nid 1000 bob grp demoDb = (leftDb, Response 200 (Msg ''Left group''))"
    by (simp add: leaveGroup_def findGroupById_def saveGroup_def Let_def leftDb_def demo_defs)
  have a: "isValidObjectId demoPlatform grp" by (simp add: demo_defs)
  have b: "findGroupById grp leftDb = Some ?g" by (simp add: findGroupById_def leftDb_def demo_defs)
  have c: "gtype ?g = Private" by (simp add: demo_defs)
  have e: "bob \<notin> set (members ?g)" by (simp add: demo_defs)
  have f: "bob \<notin> set (bannedUsers ?g)" by (simp add: demo_defs)
  have h: "filter (\<lambda>h. lh_group h = grp \<and> lh_user h = bob) (leaveHistories leftDb) \<noteq> []"
    by (simp add: leftDb_def)
  have t: "(1000::int) = Max (set (map leftAt
      (filter (\<lambda>h. lh_group h = grp \<and> lh_user h = bob) (leaveHistories leftDb))))"
    by (simp add: leftDb_def)
  have "48 - (of_int (5401000 - 1000) :: rat) / 3600000 = 93 / 2" by simp
  moreover have "\<lceil>(93::rat) / 2\<rceil> = 47" by (rule ceiling_unique) simp_all
  ultimately have ce: "\<lceil>48 - (of_int (5401000 - 1000) :: rat) / 3600000\<rceil> = 47" by simp
  from cooldown_after_leave[OF a b c e f h t, of 5401000 inv1]
  have r1: "requestJoinPrivate demoPlatform inv1 5401000 bob grp leftDb =
     (leftDb, Response 400 (ErrorCooldown 47))"
    using ce by simp
  have r2: "requestJoinPrivate demoPlatform inv1 172801000 bob grp leftDb =
     (leftDb\<lparr>joinRequests := [\<lparr>jr_id = inv1, jr_group = grp, jr_user = bob, status = Pending,
                                  jr_createdAt = 172801000\<rparr>]\<rparr>,
      Response 200 (MsgRequest ''Join request submitted'' inv1))"
    by (simp add: requestJoinPrivate_def findGroupById_def ensureNotBanned_def lastLeave_def
        upsertPending_def COOLDOWN_HOURS_def Let_def leftDb_def inv1_def demo_defs)
  from l a b c e f h t r1 r2 show ?thesis by simp
qed

section \<open>C8: leaving a group\<close>

text \<open>
  Claim C8, as stated, fails in the kind of the error: the owner who tries to leave is
  answered with status 400, the status of a rejected request, not with the 403 the
  controller uses for a forbidden action (\<^verbatim>\<open>Only owner\<close>, a banned user).
\<close>

theorem owner_leave_status_counterexample:
  "owner demoGroup = alice \<and>
   leaveGroup demoPlatform nid 0 alice grp demoDb =
     (demoDb, Response 400 (Error ''Owner must transfer ownership before leaving'')) \<and>
   statusCode (snd (leaveGroup demoPlatform nid 0 alice grp demoDb)) \<noteq> 403"
  by (simp add: leaveGroup_def findGroupById_def demo_defs)

text \<open>
  Claim C8, amended. For a stored group: a caller who is not a member is answered 400
  \<^verbatim>\<open>Not a member\<close>; the owner (a member) is answered 400
  \<^verbatim>\<open>Owner must transfer ownership before leaving\<close>, a response distinct from
  the former, and nothing changes; any other member is answered 200 and the group is
  stored with the first occurrence of the caller removed from its members, which removes
  the caller when the member list has no duplicates.
\<close>

theorem leave_owner_or_member:
  assumes "isValidObjectId L groupId" and "findGroupById groupId d = Some g"
  shows "(userId \<notin> set (members g) \<longrightarrow>
            leaveGroup L newId now userId groupId d = (d, Response 400 (Error ''Not a member''))) \<and>
         (userId \<in> set (members g) \<and> owner g = userId \<longrightarrow>
            leaveGroup L newId now userId groupId d =
              (d, Response 400 (Error ''Owner must transfer ownership before leaving'')) \<and>
            leaveGroup L newId now userId groupId d \<noteq> (d, Response 400 (Error ''Not a member''))) \<and>
         (userId \<in> set (members g) \<and> owner g \<noteq> userId \<longrightarrow>
            snd (leaveGroup L newId now userId groupId d) = Response 200 (Msg ''Left group'') \<and>
            findGroupById groupId (fst (leaveGroup L newId now userId groupId d)) =
              Some (g\<lparr>members := remove1 userId (members g)\<rparr>) \<and>
            (distinct (members g) \<longrightarrow> userId \<notin> set (remove1 userId (members g))))"
proof -
  have G: "g_id g = groupId" using assms(2) by (rule findGroupById_id)
  have F: "find (\<lambda>x. g_id x = groupId) (groups d) = Some g"
    using assms(2) by (simp add: findGroupById_def)
  have S: "findGroupById groupId (saveGroup (g\<lparr>members := remove1 userId (members g)\<rparr>) d) =
             Some (g\<lparr>members := remove1 userId (members g)\<rparr>)"
    using find_updateOne[OF F, of "\<lambda>x. g\<lparr>members := remove1 userId (members g)\<rparr>"] G
    by (simp add: findGroupById_def saveGroup_def)
  have 1: "userId \<notin> set (members g) \<longrightarrow>
            leaveGroup L newId now userId groupId d = (d, Response 400 (Error ''Not a member''))"
    using assms by (simp add: leaveGroup_def)
  have 2: "userId \<in> set (members g) \<and> owner g = userId \<longrightarrow>
            leaveGroup L newId now userId groupId d =
              (d, Response 400 (Error ''Owner must transfer ownership before leaving'')) \<and>
            leaveGroup L newId now userId groupId d \<noteq> (d, Response 400 (Error ''Not a member''))"
    using assms by (simp add: leaveGroup_def)
  have 3: "userId \<in> set (members g) \<and> owner g \<noteq> userId \<longrightarrow>
            snd (leaveGroup L newId now userId groupId d) = Response 200 (Msg ''Left group'') \<and>
            findGroupById groupId (fst (leaveGroup L newId now userId groupId d)) =
              Some (g\<lparr>members := remove1 userId (members g)\<rparr>)"
    using assms S by (auto simp: leaveGroup_def Let_def findGroupById_def)
  have 4: "distinct (members g) \<longrightarrow> userId \<notin> set (remove1 userId (members g))"
    by simp
  show ?thesis using 1 2 3 4 by blast
qed

theorem leave_owner_or_member_witness:
  "isValidObjectId demoPlatform grp \<and> findGroupById grp demoDb = Some demoGroup \<and>
   alice \<in> set (members demoGroup) \<and> owner demoGroup = alice \<and>
   bob \<in> set (members demoGroup) \<and> owner demoGroup \<noteq> bob \<and>
   leaveGroup demoPlatform nid 1000 alice grp demoDb =
     (demoDb, Response 400 (Error ''Owner must transfer ownership before leaving'')) \<and>
   snd (leaveGroup demoPlatform nid 1000 bob grp demoDb) = Response 200 (Msg ''Left group'') \<and>
   findGroupById grp (fst (leaveGroup demoPlatform nid 1000 bob grp demoDb)) =
     Some (demoGroup\<lparr>members := [alice]\<rparr>)"
proof -
  have a: "isValidObjectId demoPlatform grp" by (simp add: demo_defs)
  have b: "findGroupById grp demoDb = Some demoGroup" by (simp add: findGroupById_def demo_defs)
  have c: "alice \<in> set (members demoGroup)" "owner demoGroup = alice"
    "bob \<in> set (members demoGroup)" "owner demoGroup \<noteq> bob" by (simp_all add: demo_defs)
  have r: "remove1 bob (members demoGroup) = [alice]" by (simp add: demo_defs)
  from leave_owner_or_member[OF a b, of alice nid 1000] c
  have 1: "leaveGroup demoPlatform nid 1000 alice grp demoDb =
     (demoDb, Response 400 (Error ''Owner must transfer ownership before leaving''))" by blast
  from leave_owner_or_member[OF a b, of bob nid 1000] c
  have 2: "snd (leaveGroup demoPlatform nid 1000 bob grp demoDb) = Response 200 (Msg ''Left group'') \<and>
   findGroupById grp (fst (leaveGroup demoPlatform nid 1000 bob grp demoDb)) =
     Some (demoGroup\<lparr>members := remove1 bob (members demoGroup)\<rparr>)" by blast
  from a b c 1 2 show ?thesis unfolding r by simp
qed

section \<open>C9: sending and listing messages\<close>








section \<open>C10: a banned user with a valid invite\<close>

text \<open>
  Claim C10. When a user banned from the invite's group presents a token whose invite is
  found, enabled, unexpired and not exhausted, \<^verbatim>\<open>joinWithInvite\<close> answers 403 and
  returns the database as it was: no join request is upserted (unlike the join
  operations of C3), the invite's uses and disabled flag are untouched, and the group's
  members and banned users are unchanged.
\<close>

theorem banned_invite_changes_nothing:
  assumes "1 \<le> length token"
    and "find (\<lambda>i. tokenHash i = sha256 L token) (invites d) = Some invite"
    and "\<not> disabled invite" and "now < expiresAt invite" and "uses invite < maxUses invite"
    and "findGroupById (inv_group invite) d = Some g"
    and "userId \<in> set (bannedUsers g)"
  shows "joinWithInvite L now userId token d =
           (d, Response 403 (Error ''You are banned. Send a join request to the owner to rejoin.''))"
proof -
  have N: "token \<noteq> []" using assms(1) by auto
  show ?thesis using assms(2-) N by (simp add: joinWithInvite_def)
qed

theorem banned_invite_changes_nothing_witness:
  "1 \<le> length tok \<and>
   find (\<lambda>i. tokenHash i = sha256 demoPlatform tok) (invites bannedInviteDb) = Some demoInvite \<and>
   \<not> disabled demoInvite \<and> 5 < expiresAt demoInvite \<and> uses demoInvite < maxUses demoInvite \<and>
   findGroupById (inv_group demoInvite) bannedInviteDb =
     Some (demoGroup\<lparr>members := [alice], bannedUsers := [bob]\<rparr>) \<and>
   bob \<in> set (bannedUsers (demoGroup\<lparr>members := [alice], bannedUsers := [bob]\<rparr>)) \<and>
   joinWithInvite demoPlatform 5 bob tok bannedInviteDb =
     (bannedInviteDb,
      Response 403 (Error ''You are banned. Send a join request to the owner to rejoin.'')) \<and>
   joinRequests bannedInviteDb = [] \<and>
   joinRequests (fst (requestJoinPrivate demoPlatform nid 5 bob grp bannedInviteDb)) =
     [\<lparr>jr_id = nid, jr_group = grp, jr_user = bob, status = Pending, jr_createdAt = 5\<rparr>]"
proof -
  let ?g = "demoGroup\<lparr>members := [alice], bannedUsers := [bob]\<rparr>"
  have h1: "1 \<le> length tok" by (simp add: tok_def)
  have h2: "find (\<lambda>i. tokenHash i = sha256 demoPlatform tok) (invites bannedInviteDb) = Some demoInvite"
    by (simp add: bannedInviteDb_def inviteDb_def demoInvite_def tok_def demo_defs)
  have h3: "\<not> disabled demoInvite" and h4: "5 < expiresAt demoInvite"
    and h5: "uses demoInvite < maxUses demoInvite" by (simp_all add: demoInvite_def)
  have h6: "findGroupById (inv_group demoInvite) bannedInviteDb = Some ?g"
    by (simp add: findGroupById_def bannedInviteDb_def inviteDb_def demoInvite_def demo_defs)
  have h7: "bob \<in> set (bannedUsers ?g)" by simp
  have j: "joinRequests bannedInviteDb = []" by (simp add: bannedInviteDb_def inviteDb_def demo_defs)
  have q: "joinRequests (fst (requestJoinPrivate demoPlatform nid 5 bob grp bannedInviteDb)) =
     [\<lparr>jr_id = nid, jr_group = grp, jr_user = bob, status = Pending, jr_createdAt = 5\<rparr>]"
    by (simp add: requestJoinPrivate_def findGroupById_def ensureNotBanned_def upsertPending_def
        Let_def bannedInviteDb_def inviteDb_def demo_defs)
  from banned_invite_changes_nothing[OF h1 h2 h3 h4 h5 h6 h7] h1 h2 h3 h4 h5 h6 h7 j q
  show ?thesis by simp
qed

end
